theory Spec2Isabelle
  imports Complex_Main "HOL-Library.AList"
begin

section \<open>Python values, errors and dictionaries\<close>

text \<open>
  Configuration values are dynamically typed in the source (\<^verbatim>\<open>Dict[str, Any]\<close>); the
  constructors below are the Python classes that the validation rules test with
  \<^verbatim>\<open>isinstance\<close>. A finite float is represented by its real value.
\<close>

datatype pyfloat = Finite real | PosInf | NegInf | NaN

datatype pyval =
    PNone
  | PBool bool
  | PInt int
  | PFloat pyfloat
  | PStr string
  | PList "pyval list"
  | PDict "(string \<times> pyval) list"

text \<open>Every \<^verbatim>\<open>raise\<close> of the source is a value of this type.\<close>

datatype error =
    KeyError string
  | AttributeError string
  | ValueError string
  | OverflowError string
  | RuntimeError string
  | Exception string

text \<open>\<^verbatim>\<open>str(e)\<close> for the exceptions above (\<^verbatim>\<open>str(KeyError(k))\<close> is the quoted key).\<close>

fun str_error :: "error \<Rightarrow> string" where
  "str_error (KeyError k) = [CHR 0x27] @ k @ [CHR 0x27]"
| "str_error (AttributeError m) = m"
| "str_error (ValueError m) = m"
| "str_error (OverflowError m) = m"
| "str_error (RuntimeError m) = m"
| "str_error (Exception m) = m"

text \<open>\<^verbatim>\<open>str(n)\<close> for an integer: decimal digits, with a minus sign when negative.\<close>

function str_nat :: "nat \<Rightarrow> string" where
  "str_nat n = (if n < 10 then [''0123456789'' ! n] else str_nat (n div 10) @ [''0123456789'' ! (n mod 10)])"
  by pat_completeness auto
termination
  by (relation "measure (\<lambda>n. n)") auto

declare str_nat.simps [simp del]

definition str_int :: "int \<Rightarrow> string" where
  "str_int i = (if i < 0 then CHR ''-'' # str_nat (nat (- i)) else str_nat (nat i))"

text \<open>
  A Python \<^verbatim>\<open>dict\<close> keeps its keys in insertion order; assigning to an existing key keeps
  the key's position. That is \<^const>\<open>AList.update\<close> on an association list, and
  \<^const>\<open>map_of\<close> is the lookup. Subscripting a missing key raises \<^verbatim>\<open>KeyError\<close>.
\<close>

type_synonym 'v dict = "(string \<times> 'v) list"

definition dict_get :: "'v dict \<Rightarrow> string \<Rightarrow> error + 'v" where
  "dict_get d k = (case map_of d k of None \<Rightarrow> Inl (KeyError k) | Some v \<Rightarrow> Inr v)"

definition dict_set :: "'v dict \<Rightarrow> string \<Rightarrow> 'v \<Rightarrow> 'v dict" where
  "dict_set d k v = AList.update k v d"

definition dict_keys :: "'v dict \<Rightarrow> string list" where
  "dict_keys d = map fst d"

section \<open>The pipeline model (designer/PipelineBuilder.py)\<close>

datatype NodeType =
  SOURCE | BUILD | TEST | DEPLOY | NOTIFICATION | CONDITION | PARALLEL | SEQUENTIAL

text \<open>
  \<^verbatim>\<open>PipelineNode\<close>. The field \<^verbatim>\<open>id\<close> is written \<open>id'\<close>; the layout hint
  \<^verbatim>\<open>position\<close> (a pair of floats that no operation reads) is left out.
\<close>

record PipelineNode =
  id' :: string
  name :: string
  type :: NodeType
  config :: "pyval dict"
  dependencies :: "string list"
  timeout :: int
  retry_count :: int
  continue_on_error :: bool
  environment :: "string dict"

text \<open>
  \<^verbatim>\<open>Pipeline\<close>. A connection \<^verbatim>\<open>{'from': a, 'to': b}\<close> is the pair \<open>(a, b)\<close>; times are
  seconds on the clock that \<^verbatim>\<open>datetime.now()\<close> reads. Of \<^verbatim>\<open>PipelineConfig\<close> the
  identifier and the name are kept.
\<close>

record Pipeline =
  pipeline_id :: string
  pipeline_name :: string
  nodes :: "PipelineNode list"
  connections :: "(string \<times> string) list"
  created_at :: int
  updated_at :: int
  version :: string

text \<open>\<^verbatim>\<open>next((n for n in pipeline.nodes if n.id == node_id), None)\<close>\<close>

definition find_node :: "PipelineNode list \<Rightarrow> string \<Rightarrow> PipelineNode option" where
  "find_node ns i = List.find (\<lambda>n. id' n = i) ns"

text \<open>
  The node object found by \<^const>\<open>find_node\<close> is mutated in place: in the list of nodes
  the first node with that id changes, every other node stays.
\<close>

fun update_node :: "string \<Rightarrow> (PipelineNode \<Rightarrow> PipelineNode) \<Rightarrow> PipelineNode list \<Rightarrow> PipelineNode list" where
  "update_node i f [] = []"
| "update_node i f (n # ns) = (if id' n = i then f n # ns else n # update_node i f ns)"

text \<open>
  \<^verbatim>\<open>connect_nodes\<close>, lines 238-264. A dataclass instance and a non-empty \<^verbatim>\<open>dict\<close> are
  truthy, so \<^verbatim>\<open>not from_node\<close> and \<^verbatim>\<open>if existing\<close> test for \<^verbatim>\<open>None\<close>. The result is
  the returned flag and the pipeline after the call; \<open>now\<close> is the clock reading.
\<close>

definition connect_nodes :: "int \<Rightarrow> Pipeline \<Rightarrow> string \<Rightarrow> string \<Rightarrow> bool \<times> Pipeline" where
  "connect_nodes now pipeline from_node_id to_node_id =
     (case find_node (nodes pipeline) from_node_id of
        None \<Rightarrow> (False, pipeline)
      | Some from_node \<Rightarrow>
         (case find_node (nodes pipeline) to_node_id of
            None \<Rightarrow> (False, pipeline)
          | Some to_node \<Rightarrow>
             (case List.find (\<lambda>c. fst c = from_node_id \<and> snd c = to_node_id) (connections pipeline) of
                Some existing \<Rightarrow> (False, pipeline)
              | None \<Rightarrow>
                 (True,
                  pipeline\<lparr>connections := connections pipeline @ [(from_node_id, to_node_id)],
                           nodes := update_node to_node_id
                              (\<lambda>n. if from_node_id \<in> set (dependencies n) then n
                                   else n\<lparr>dependencies := dependencies n @ [from_node_id]\<rparr>)
                              (nodes pipeline),
                           updated_at := now\<rparr>))))"


section \<open>The node validator (designer/NodeValidator.py)\<close>

subsection \<open>Python built-ins used by the validator\<close>

text \<open>Truthiness, as \<^verbatim>\<open>not node.config[field]\<close> tests it.\<close>

fun truthy :: "pyval \<Rightarrow> bool" where
  "truthy PNone = False"
| "truthy (PBool b) = b"
| "truthy (PInt i) = (i \<noteq> 0)"
| "truthy (PFloat f) = (f \<noteq> Finite 0)"
| "truthy (PStr s) = (s \<noteq> [])"
| "truthy (PList xs) = (xs \<noteq> [])"
| "truthy (PDict kvs) = (kvs \<noteq> [])"

text \<open>\<^verbatim>\<open>isinstance\<close>: \<^verbatim>\<open>bool\<close> is a subclass of \<^verbatim>\<open>int\<close>.\<close>

datatype pytype = TStr | TBool | TInt | TFloat | TList | TDict

fun isinstance :: "pyval \<Rightarrow> pytype \<Rightarrow> bool" where
  "isinstance (PStr s) t = (t = TStr)"
| "isinstance (PBool b) t = (t = TBool \<or> t = TInt)"
| "isinstance (PInt i) t = (t = TInt)"
| "isinstance (PFloat f) t = (t = TFloat)"
| "isinstance (PList xs) t = (t = TList)"
| "isinstance (PDict kvs) t = (t = TDict)"
| "isinstance PNone t = False"

fun type_name :: "pytype \<Rightarrow> string" where
  "type_name TStr = ''str''"
| "type_name TBool = ''bool''"
| "type_name TInt = ''int''"
| "type_name TFloat = ''float''"
| "type_name TList = ''list''"
| "type_name TDict = ''dict''"

text \<open>
  \<^verbatim>\<open>str(value)\<close>. The text of a float, a list or a dict (their \<^verbatim>\<open>repr\<close>) is a parameter
  \<open>render\<close> of the model.
\<close>

fun py_str :: "(pyval \<Rightarrow> string) \<Rightarrow> pyval \<Rightarrow> string" where
  "py_str render (PStr s) = s"
| "py_str render (PBool b) = (if b then ''True'' else ''False'')"
| "py_str render (PInt i) = str_int i"
| "py_str render PNone = ''None''"
| "py_str render v = render v"

text \<open>
  \<^verbatim>\<open>float(value)\<close>: \<^verbatim>\<open>TypeError\<close> for \<^verbatim>\<open>None\<close>, lists and dicts; \<^verbatim>\<open>OverflowError\<close> for an
  integer that rounds beyond the largest double; parsing a string is a parameter
  \<open>parse\<close> (\<open>None\<close> when it raises \<^verbatim>\<open>ValueError\<close>). The conversion of an integer is
  taken as exact: it is monotone and the bounds it is compared with are small integers.
\<close>

datatype float_error = NotNumeric | Overflow

fun py_float :: "(string \<Rightarrow> pyfloat option) \<Rightarrow> pyval \<Rightarrow> float_error + pyfloat" where
  "py_float parse (PBool b) = Inr (Finite (if b then 1 else 0))"
| "py_float parse (PInt i) =
     (if \<bar>i\<bar> \<ge> 2 ^ 1024 - 2 ^ 970 then Inl Overflow else Inr (Finite (of_int i)))"
| "py_float parse (PFloat f) = Inr f"
| "py_float parse (PStr s) = (case parse s of None \<Rightarrow> Inl NotNumeric | Some f \<Rightarrow> Inr f)"
| "py_float parse v = Inl NotNumeric"

text \<open>\<open>num_value < min_val or num_value > max_val\<close> for a float and two integers.\<close>

fun out_of_range :: "pyfloat \<Rightarrow> int \<Rightarrow> int \<Rightarrow> bool" where
  "out_of_range (Finite r) lo hi = (r < of_int lo \<or> r > of_int hi)"
| "out_of_range PosInf lo hi = True"
| "out_of_range NegInf lo hi = True"
| "out_of_range NaN lo hi = False"

subsection \<open>Regular expressions\<close>

text \<open>
  The patterns of the rule table use literals, character classes, the dot, grouping,
  alternation, \<^verbatim>\<open>?\<close>, \<^verbatim>\<open>*\<close>, \<^verbatim>\<open>+\<close>, a leading \<^verbatim>\<open>^\<close> and a trailing \<^verbatim>\<open>$\<close>.
  \<^verbatim>\<open>re.match(pattern, s)\<close> succeeds when some prefix of \<open>s\<close> is in the language of the
  pattern; with a trailing \<^verbatim>\<open>$\<close> the rest of \<open>s\<close> after that prefix must be empty or a
  single newline. The dot matches every character but the newline.
\<close>

datatype cls = CRange char char | COne char

datatype rx =
    RVoid
  | REps
  | RCls "cls list"
  | RDot
  | RSeq rx rx
  | RAlt rx rx
  | RStar rx

fun in_cls :: "char \<Rightarrow> cls \<Rightarrow> bool" where
  "in_cls c (CRange a b) = ((of_char a :: nat) \<le> of_char c \<and> (of_char c :: nat) \<le> of_char b)"
| "in_cls c (COne a) = (c = a)"

fun nullable :: "rx \<Rightarrow> bool" where
  "nullable RVoid = False"
| "nullable REps = True"
| "nullable (RCls items) = False"
| "nullable RDot = False"
| "nullable (RSeq r s) = (nullable r \<and> nullable s)"
| "nullable (RAlt r s) = (nullable r \<or> nullable s)"
| "nullable (RStar r) = True"

fun deriv :: "char \<Rightarrow> rx \<Rightarrow> rx" where
  "deriv c RVoid = RVoid"
| "deriv c REps = RVoid"
| "deriv c (RCls items) = (if \<exists>i \<in> set items. in_cls c i then REps else RVoid)"
| "deriv c RDot = (if c = CHR 0x0A then RVoid else REps)"
| "deriv c (RSeq r s) =
     (if nullable r then RAlt (RSeq (deriv c r) s) (deriv c s) else RSeq (deriv c r) s)"
| "deriv c (RAlt r s) = RAlt (deriv c r) (deriv c s)"
| "deriv c (RStar r) = RSeq (deriv c r) (RStar r)"

fun matches_prefix :: "bool \<Rightarrow> rx \<Rightarrow> string \<Rightarrow> bool" where
  "matches_prefix dollar r [] = nullable r"
| "matches_prefix dollar r (c # cs) =
     ((nullable r \<and> (\<not> dollar \<or> c # cs = [CHR 0x0A])) \<or> matches_prefix dollar (deriv c r) cs)"

definition rx_plus :: "rx \<Rightarrow> rx" where
  "rx_plus r = RSeq r (RStar r)"

definition rx_opt :: "rx \<Rightarrow> rx" where
  "rx_opt r = RAlt r REps"

fun rx_str :: "string \<Rightarrow> rx" where
  "rx_str [] = REps"
| "rx_str (c # cs) = RSeq (RCls [COne c]) (rx_str cs)"

fun rx_alts :: "rx list \<Rightarrow> rx" where
  "rx_alts [] = RVoid"
| "rx_alts [r] = r"
| "rx_alts (r # rs) = RAlt r (rx_alts rs)"

text \<open>A pattern: its source text (quoted in a message), whether it ends in \<^verbatim>\<open>$\<close>, its body.\<close>

record pattern =
  pattern_text :: string
  dollar :: bool
  body :: rx

definition re_match :: "pattern \<Rightarrow> string \<Rightarrow> bool" where
  "re_match p s = matches_prefix (dollar p) (body p) s"

definition alnum :: "cls list" where
  "alnum = [CRange CHR ''a'' CHR ''z'', CRange CHR ''A'' CHR ''Z'', CRange CHR ''0'' CHR ''9'']"

definition pat_repository :: pattern where
  "pat_repository =
     \<lparr>pattern_text = ''^[a-zA-Z0-9._-]+(/[a-zA-Z0-9._-]+)*$'', dollar = True,
      body = RSeq (rx_plus (RCls (alnum @ [COne CHR ''.'', COne CHR ''_'', COne CHR ''-''])))
                 (RStar (RSeq (rx_str ''/'')
                            (rx_plus (RCls (alnum @ [COne CHR ''.'', COne CHR ''_'', COne CHR ''-''])))))\<rparr>"

definition pat_path_plus :: pattern where
  "pat_path_plus =
     \<lparr>pattern_text = ''^[a-zA-Z0-9._/-]+$'', dollar = True,
      body = rx_plus (RCls (alnum @ [COne CHR ''.'', COne CHR ''_'', COne CHR ''/'', COne CHR ''-'']))\<rparr>"

definition pat_path_star :: pattern where
  "pat_path_star =
     \<lparr>pattern_text = ''^[a-zA-Z0-9._/-]*$'', dollar = True,
      body = RStar (RCls (alnum @ [COne CHR ''.'', COne CHR ''_'', COne CHR ''/'', COne CHR ''-'']))\<rparr>"

definition pat_nonempty :: pattern where
  "pat_nonempty = \<lparr>pattern_text = ''.+'', dollar = False, body = rx_plus RDot\<rparr>"

definition pat_results_format :: pattern where
  "pat_results_format =
     \<lparr>pattern_text = ''^(junit|tap|json)$'', dollar = True,
      body = rx_alts [rx_str ''junit'', rx_str ''tap'', rx_str ''json'']\<rparr>"

definition pat_environment :: pattern where
  "pat_environment =
     \<lparr>pattern_text = ''^(dev|staging|prod|production)$'', dollar = True,
      body = rx_alts [rx_str ''dev'', rx_str ''staging'', rx_str ''prod'', rx_str ''production'']\<rparr>"

definition pat_url :: pattern where
  "pat_url =
     \<lparr>pattern_text = ''^https?://[a-zA-Z0-9.-]+'', dollar = False,
      body = RSeq (rx_str ''http'') (RSeq (rx_opt (rx_str ''s'')) (RSeq (rx_str ''://'')
               (rx_plus (RCls (alnum @ [COne CHR ''.'', COne CHR ''-''])))))\<rparr>"

definition pat_strategy :: pattern where
  "pat_strategy =
     \<lparr>pattern_text = ''^(rolling|blue-green|canary)$'', dollar = True,
      body = rx_alts [rx_str ''rolling'', rx_str ''blue-green'', rx_str ''canary'']\<rparr>"

definition pat_notification_type :: pattern where
  "pat_notification_type =
     \<lparr>pattern_text = ''^(email|slack|webhook|teams)$'', dollar = True,
      body = rx_alts [rx_str ''email'', rx_str ''slack'', rx_str ''webhook'', rx_str ''teams'']\<rparr>"

subsection \<open>Rules and results\<close>

datatype ValidationLevel = ERROR | WARNING | INFO

record ValidationResult =
  level :: ValidationLevel
  message :: string
  field :: "string option"
  suggestion :: "string option"

record NodeValidationReport =
  node_id :: string
  node_name :: string
  is_valid :: bool
  results :: "ValidationResult list"

definition warnings :: "NodeValidationReport \<Rightarrow> ValidationResult list" where
  "warnings report = filter (\<lambda>r. level r = WARNING) (results report)"

text \<open>
  COne entry of \<^verbatim>\<open>_load_validation_rules\<close>. A type is one class or a tuple of classes; an
  absent upper bound is \<^verbatim>\<open>float('inf')\<close>.
\<close>

datatype tyspec = Single pytype | Tuple "pytype list"

record rules =
  required_fields :: "string list"
  optional_fields :: "string list"
  field_types :: "tyspec dict"
  field_patterns :: "pattern dict"
  field_ranges :: "(int \<times> int) dict"
  min_inputs :: int
  max_inputs :: "int option"
  min_outputs :: int
  max_outputs :: "int option"

text \<open>\<^verbatim>\<open>self.validation_rules.get(node.type.value, {})\<close>, with the table of lines 63-199.\<close>

definition no_rules :: rules where
  "no_rules =
     \<lparr>required_fields = [], optional_fields = [], field_types = [], field_patterns = [],
      field_ranges = [], min_inputs = 0, max_inputs = None, min_outputs = 0, max_outputs = None\<rparr>"

fun validation_rules :: "NodeType \<Rightarrow> rules" where
  "validation_rules SOURCE =
     \<lparr>required_fields = [''repository'', ''branch''],
      optional_fields = [''checkout_path'', ''submodules'', ''depth'', ''token''],
      field_types = [(''repository'', Single TStr), (''branch'', Single TStr),
                     (''checkout_path'', Single TStr), (''submodules'', Single TBool),
                     (''depth'', Single TInt), (''token'', Single TStr)],
      field_patterns = [(''repository'', pat_repository), (''branch'', pat_path_plus)],
      field_ranges = [],
      min_inputs = 0, max_inputs = Some 0, min_outputs = 1, max_outputs = Some 1\<rparr>"
| "validation_rules BUILD =
     \<lparr>required_fields = [''build_command''],
      optional_fields = [''build_path'', ''artifacts'', ''cache_key'', ''environment''],
      field_types = [(''build_command'', Single TStr), (''build_path'', Single TStr),
                     (''artifacts'', Single TList), (''cache_key'', Single TStr),
                     (''environment'', Single TDict)],
      field_patterns = [(''build_command'', pat_nonempty), (''build_path'', pat_path_plus)],
      field_ranges = [],
      min_inputs = 1, max_inputs = Some 5, min_outputs = 0, max_outputs = Some 3\<rparr>"
| "validation_rules TEST =
     \<lparr>required_fields = [''test_command''],
      optional_fields = [''test_path'', ''coverage_threshold'', ''test_results_format'', ''parallel''],
      field_types = [(''test_command'', Single TStr), (''test_path'', Single TStr),
                     (''coverage_threshold'', Tuple [TInt, TFloat]),
                     (''test_results_format'', Single TStr), (''parallel'', Single TBool)],
      field_patterns = [(''test_command'', pat_nonempty), (''test_path'', pat_path_star),
                        (''test_results_format'', pat_results_format)],
      field_ranges = [(''coverage_threshold'', (0, 100))],
      min_inputs = 1, max_inputs = Some 3, min_outputs = 0, max_outputs = Some 2\<rparr>"
| "validation_rules DEPLOY =
     \<lparr>required_fields = [''target_environment'', ''deploy_command''],
      optional_fields = [''health_check_url'', ''rollback_enabled'', ''timeout'', ''strategy''],
      field_types = [(''target_environment'', Single TStr), (''deploy_command'', Single TStr),
                     (''health_check_url'', Single TStr), (''rollback_enabled'', Single TBool),
                     (''timeout'', Single TInt), (''strategy'', Single TStr)],
      field_patterns = [(''target_environment'', pat_environment),
                        (''deploy_command'', pat_nonempty),
                        (''health_check_url'', pat_url), (''strategy'', pat_strategy)],
      field_ranges = [(''timeout'', (30, 3600))],
      min_inputs = 1, max_inputs = Some 2, min_outputs = 0, max_outputs = Some 1\<rparr>"
| "validation_rules NOTIFICATION =
     \<lparr>required_fields = [''notification_type'', ''recipients''],
      optional_fields = [''message_template'', ''conditions'', ''webhook_url''],
      field_types = [(''notification_type'', Single TStr), (''recipients'', Single TList),
                     (''message_template'', Single TStr), (''conditions'', Single TList),
                     (''webhook_url'', Single TStr)],
      field_patterns = [(''notification_type'', pat_notification_type),
                        (''webhook_url'', pat_url)],
      field_ranges = [],
      min_inputs = 0, max_inputs = Some 10, min_outputs = 0, max_outputs = Some 0\<rparr>"
| "validation_rules CONDITION =
     \<lparr>required_fields = [''condition_expression''],
      optional_fields = [''true_branch'', ''false_branch'', ''timeout''],
      field_types = [(''condition_expression'', Single TStr), (''true_branch'', Single TStr),
                     (''false_branch'', Single TStr), (''timeout'', Single TInt)],
      field_patterns = [(''condition_expression'', pat_nonempty)],
      field_ranges = [],
      min_inputs = 0, max_inputs = Some 5, min_outputs = 0, max_outputs = Some 5\<rparr>"
| "validation_rules PARALLEL = no_rules"
| "validation_rules SEQUENTIAL = no_rules"

subsection \<open>The validation passes\<close>

definition quoted :: "string \<Rightarrow> string" where
  "quoted s = [CHR 0x27] @ s @ [CHR 0x27]"

text \<open>\<^verbatim>\<open>', '.join(names)\<close>\<close>

fun join_comma :: "string list \<Rightarrow> string" where
  "join_comma [] = []"
| "join_comma [s] = s"
| "join_comma (s # ss) = s @ '', '' @ join_comma ss"

text \<open>\<^verbatim>\<open>_validate_required_fields\<close>, lines 253-273.\<close>

fun validate_required_fields :: "pyval dict \<Rightarrow> string list \<Rightarrow> ValidationResult list" where
  "validate_required_fields cfg [] = []"
| "validate_required_fields cfg (f # fs) =
     (case map_of cfg f of
        None \<Rightarrow>
          [\<lparr>level = ERROR, message = ''Required field '' @ quoted f @ '' is missing'',
            field = Some f,
            suggestion = Some (''Add '' @ quoted f @ '' to node configuration'')\<rparr>]
      | Some v \<Rightarrow>
          (if \<not> truthy v then
             [\<lparr>level = ERROR, message = ''Required field '' @ quoted f @ '' cannot be empty'',
               field = Some f, suggestion = None\<rparr>]
           else []))
     @ validate_required_fields cfg fs"

text \<open>\<^verbatim>\<open>_validate_field_types\<close>, lines 275-301.\<close>

fun validate_field_types :: "pyval dict \<Rightarrow> tyspec dict \<Rightarrow> ValidationResult list" where
  "validate_field_types cfg [] = []"
| "validate_field_types cfg ((f, expected_type) # rest) =
     (case map_of cfg f of
        None \<Rightarrow> []
      | Some v \<Rightarrow>
          (case expected_type of
             Tuple ts \<Rightarrow>
               (if \<not> (\<exists>t \<in> set ts. isinstance v t) then
                  [\<lparr>level = ERROR,
                    message = ''Field '' @ quoted f @ '' must be one of types: ''
                              @ join_comma (map type_name ts),
                    field = Some f, suggestion = None\<rparr>]
                else [])
           | Single t \<Rightarrow>
               (if \<not> isinstance v t then
                  [\<lparr>level = ERROR,
                    message = ''Field '' @ quoted f @ '' must be of type '' @ type_name t,
                    field = Some f, suggestion = None\<rparr>]
                else [])))
     @ validate_field_types cfg rest"

text \<open>\<^verbatim>\<open>_validate_field_patterns\<close>, lines 303-319.\<close>

fun validate_field_patterns ::
  "(pyval \<Rightarrow> string) \<Rightarrow> pyval dict \<Rightarrow> pattern dict \<Rightarrow> ValidationResult list" where
  "validate_field_patterns render cfg [] = []"
| "validate_field_patterns render cfg ((f, p) # rest) =
     (case map_of cfg f of
        None \<Rightarrow> []
      | Some v \<Rightarrow>
          (if \<not> re_match p (py_str render v) then
             [\<lparr>level = ERROR,
               message = ''Field '' @ quoted f @ '' does not match required pattern'',
               field = Some f,
               suggestion = Some (''Value must match pattern: '' @ pattern_text p)\<rparr>]
           else []))
     @ validate_field_patterns render cfg rest"

text \<open>
  \<^verbatim>\<open>_validate_field_ranges\<close>, lines 321-344. \<^verbatim>\<open>ValueError\<close> and \<^verbatim>\<open>TypeError\<close> are caught;
  \<^verbatim>\<open>OverflowError\<close> is not and leaves \<^verbatim>\<open>validate_node\<close>.
\<close>

fun validate_field_ranges ::
  "(string \<Rightarrow> pyfloat option) \<Rightarrow> pyval dict \<Rightarrow> (int \<times> int) dict \<Rightarrow>
   error + ValidationResult list" where
  "validate_field_ranges parse cfg [] = Inr []"
| "validate_field_ranges parse cfg ((f, (min_val, max_val)) # rest) =
     (case (case map_of cfg f of
              None \<Rightarrow> Inr []
            | Some v \<Rightarrow>
               (case py_float parse v of
                  Inl Overflow \<Rightarrow> Inl (OverflowError ''int too large to convert to float'')
                | Inl NotNumeric \<Rightarrow>
                    Inr [\<lparr>level = ERROR,
                          message = ''Field '' @ quoted f @ '' must be a numeric value'',
                          field = Some f, suggestion = None\<rparr>]
                | Inr num_value \<Rightarrow>
                    Inr (if out_of_range num_value min_val max_val then
                           [\<lparr>level = ERROR,
                             message = ''Field '' @ quoted f @ '' must be between ''
                                       @ str_int min_val @ '' and '' @ str_int max_val,
                             field = Some f, suggestion = None\<rparr>]
                         else []))) of
        Inl e \<Rightarrow> Inl e
      | Inr here \<Rightarrow>
         (case validate_field_ranges parse cfg rest of
            Inl e \<Rightarrow> Inl e
          | Inr later \<Rightarrow> Inr (here @ later)))"

text \<open>\<^verbatim>\<open>_validate_node_dependencies\<close>, lines 346-387.\<close>

definition validate_node_dependencies ::
  "PipelineNode \<Rightarrow> Pipeline \<Rightarrow> rules \<Rightarrow> ValidationResult list" where
  "validate_node_dependencies node pipeline rs =
     (let input_count = int (length (dependencies node));
          output_count = int (length (filter (\<lambda>c. fst c = id' node) (connections pipeline)))
      in (if input_count < min_inputs rs then
            [\<lparr>level = ERROR,
              message = ''Node requires at least '' @ str_int (min_inputs rs)
                        @ '' input connection(s), but has '' @ str_int input_count,
              field = None, suggestion = Some ''Connect required input nodes''\<rparr>]
          else if (case max_inputs rs of None \<Rightarrow> False | Some m \<Rightarrow> input_count > m) then
            [\<lparr>level = WARNING,
              message = ''Node has '' @ str_int input_count
                        @ '' input connections, maximum recommended is ''
                        @ str_int (the (max_inputs rs)),
              field = None, suggestion = None\<rparr>]
          else [])
         @
         (if output_count < min_outputs rs then
            [\<lparr>level = WARNING,
              message = ''Node should have at least '' @ str_int (min_outputs rs)
                        @ '' output connection(s), but has '' @ str_int output_count,
              field = None,
              suggestion = Some ''Connect output nodes or add notification nodes''\<rparr>]
          else if (case max_outputs rs of None \<Rightarrow> False | Some m \<Rightarrow> output_count > m) then
            [\<lparr>level = INFO,
              message = ''Node has '' @ str_int output_count
                        @ '' output connections, which may impact performance'',
              field = None, suggestion = None\<rparr>]
          else []))"

text \<open>\<^verbatim>\<open>_validate_deploy_node\<close>, lines 487-511.\<close>

definition validate_deploy_node :: "PipelineNode \<Rightarrow> ValidationResult list" where
  "validate_deploy_node node =
     (case map_of (config node) ''target_environment'' of
        None \<Rightarrow> []
      | Some env \<Rightarrow>
          (if env = PStr ''prod'' \<or> env = PStr ''production'' then
             (if map_of (config node) ''health_check_url'' = None then
                [\<lparr>level = WARNING,
                  message = ''Production deployment should include health checks'',
                  field = None,
                  suggestion = Some ''Add health_check_url configuration''\<rparr>]
              else [])
             @
             (if map_of (config node) ''rollback_enabled'' \<noteq> Some (PBool True) then
                [\<lparr>level = WARNING,
                  message = ''Production deployment should enable rollback'',
                  field = None,
                  suggestion = Some ''Set rollback_enabled to true''\<rparr>]
              else [])
           else []))"

text \<open>
  \<^verbatim>\<open>_validate_node_specific\<close>, lines 389-404. The branch of Deploy nodes is the one above;
  Condition, Parallel and Sequential nodes have no branch. The validators of the other
  node types are the parameter \<open>other\<close>.
\<close>

definition validate_node_specific ::
  "(PipelineNode \<Rightarrow> error + ValidationResult list) \<Rightarrow> PipelineNode \<Rightarrow>
   error + ValidationResult list" where
  "validate_node_specific other node =
     (if type node = DEPLOY then Inr (validate_deploy_node node)
      else if type node \<in> {SOURCE, BUILD, TEST, NOTIFICATION} then other node
      else Inr [])"

text \<open>\<^verbatim>\<open>_validate_timeout_settings\<close>, lines 531-548.\<close>

definition validate_timeout_settings :: "PipelineNode \<Rightarrow> ValidationResult list" where
  "validate_timeout_settings node =
     (if timeout node \<le> 0 then
        [\<lparr>level = ERROR, message = ''Timeout must be greater than 0'',
          field = Some ''timeout'', suggestion = None\<rparr>]
      else if timeout node > 7200 then
        [\<lparr>level = WARNING, message = ''Very long timeout may indicate inefficient process'',
          field = Some ''timeout'', suggestion = None\<rparr>]
      else [])"

text \<open>\<^verbatim>\<open>_validate_unused_config\<close>, lines 550-567.\<close>

definition validate_unused_config :: "PipelineNode \<Rightarrow> rules \<Rightarrow> ValidationResult list" where
  "validate_unused_config node rs =
     concat (map (\<lambda>config_key.
        if config_key \<notin> set (required_fields rs) \<union> set (optional_fields rs) then
          [\<lparr>level = INFO,
            message = ''Unknown configuration key: '' @ quoted config_key,
            field = Some config_key,
            suggestion = Some ''Remove unused configuration or check spelling''\<rparr>]
        else []) (map fst (config node)))"

text \<open>
  \<^verbatim>\<open>validate_node\<close>, lines 211-251. The parameters are the Python built-ins and the
  validators that are not modelled.
\<close>

record builtins =
  render :: "pyval \<Rightarrow> string"
  parse_float :: "string \<Rightarrow> pyfloat option"
  other_validators :: "PipelineNode \<Rightarrow> error + ValidationResult list"

definition validate_node ::
  "builtins \<Rightarrow> PipelineNode \<Rightarrow> Pipeline option \<Rightarrow> error + NodeValidationReport" where
  "validate_node py node pipeline_context =
     (let rs = validation_rules (type node);
          r1 = validate_required_fields (config node) (required_fields rs);
          r2 = validate_field_types (config node) (field_types rs);
          r3 = validate_field_patterns (render py) (config node) (field_patterns rs)
      in (case validate_field_ranges (parse_float py) (config node) (field_ranges rs) of
            Inl e \<Rightarrow> Inl e
          | Inr r4 \<Rightarrow>
             (let r5 = (case pipeline_context of
                          None \<Rightarrow> []
                        | Some pipeline \<Rightarrow> validate_node_dependencies node pipeline rs)
              in (case validate_node_specific (other_validators py) node of
                    Inl e \<Rightarrow> Inl e
                  | Inr r6 \<Rightarrow>
                     (let rsl = r1 @ r2 @ r3 @ r4 @ r5 @ r6 @ validate_timeout_settings node
                                @ validate_unused_config node rs;
                          has_errors = (\<exists>r \<in> set rsl. level r = ERROR)
                      in Inr \<lparr>node_id = id' node, node_name = name node,
                              is_valid = \<not> has_errors, results = rsl\<rparr>)))))"

section \<open>The orchestrator (execution/PipelineRunner.py)\<close>

datatype ExecutionStatus =
  PENDING | QUEUED | RUNNING | COMPLETED | FAILED | CANCELLED | SKIPPED | TIMEOUT

text \<open>
  \<^verbatim>\<open>NodeExecution\<close>. The fields that the orchestrator only writes (\<^verbatim>\<open>started_at\<close>,
  \<^verbatim>\<open>completed_at\<close>, \<^verbatim>\<open>duration\<close>, \<^verbatim>\<open>logs\<close>, \<^verbatim>\<open>outputs\<close>) are left out.
\<close>

record NodeExecution =
  node_id :: string
  node_name :: string
  status :: ExecutionStatus
  error_message :: "string option"
  retry_count :: int

text \<open>\<^verbatim>\<open>NodeExecution.is_completed\<close>, lines 63-66.\<close>

definition is_completed :: "NodeExecution \<Rightarrow> bool" where
  "is_completed ne \<longleftrightarrow>
     NodeExecution.status ne \<in> set [COMPLETED, FAILED, CANCELLED, SKIPPED, TIMEOUT]"

text \<open>
  \<^verbatim>\<open>PipelineExecution\<close>, lines 77-139. Besides its fields the class defines the properties
  \<^verbatim>\<open>progress_percentage\<close>, \<^verbatim>\<open>completed_nodes\<close>, \<^verbatim>\<open>total_nodes\<close> and the method
  \<^verbatim>\<open>to_dict\<close>, and nothing else.
\<close>

record PipelineExecution =
  execution_id :: string
  pipeline_id :: string
  status :: ExecutionStatus
  started_at :: int
  completed_at :: "int option"
  node_executions :: "NodeExecution dict"
  execution_order :: "string list list"
  current_stage :: nat
  total_stages :: nat
  error_message :: "string option"
  cancelled_by :: "string option"

definition completed_nodes :: "PipelineExecution \<Rightarrow> nat" where
  "completed_nodes e = length (filter (\<lambda>kv. is_completed (snd kv)) (node_executions e))"

definition total_nodes :: "PipelineExecution \<Rightarrow> nat" where
  "total_nodes e = length (node_executions e)"

text \<open>
  What one run of a node's work under \<^verbatim>\<open>asyncio.wait_for(..., timeout=node.timeout)\<close>
  does: it returns, it is still running when the timeout elapses, or it raises. The work
  itself (a step of the step executor) is a parameter of the model: \<open>work i k\<close> is the
  outcome of run number \<open>k\<close> (counted from 0) of the work of node \<open>i\<close>.
\<close>

datatype outcome = Returns | TimesOut | Raises string

text \<open>
  The run state is the execution object together with a trace of what the orchestrator
  did: the tasks it created (stage index and node id), each assignment to the status of a
  node execution, and each run of a node's work with its number.
\<close>

datatype event =
    Dispatch nat string
  | SetStatus string ExecutionStatus
  | RunWork string nat

record run_state =
  exec :: PipelineExecution
  trace :: "event list"

definition runs_of :: "event list \<Rightarrow> string \<Rightarrow> nat" where
  "runs_of tr i = length (filter (\<lambda>ev. case ev of RunWork j k \<Rightarrow> j = i | _ \<Rightarrow> False) tr)"

text \<open>
  Assigning \<^verbatim>\<open>node_exec.status\<close> (and, with it, the error message and the retry counter)
  mutates the \<^verbatim>\<open>NodeExecution\<close> object stored in \<^verbatim>\<open>execution.node_executions\<close> under
  the key \<open>i\<close>.
\<close>

definition set_node_exec :: "run_state \<Rightarrow> string \<Rightarrow> NodeExecution \<Rightarrow> run_state" where
  "set_node_exec st i ne =
     st\<lparr>exec := (exec st)\<lparr>node_executions := dict_set (node_executions (exec st)) i ne\<rparr>,
        trace := trace st @ [SetStatus i (NodeExecution.status ne)]\<rparr>"

text \<open>\<^verbatim>\<open>_are_dependencies_satisfied\<close>, lines 556-562.\<close>

fun deps_satisfied :: "NodeExecution dict \<Rightarrow> string list \<Rightarrow> bool" where
  "deps_satisfied ne [] = True"
| "deps_satisfied ne (dep_id # deps) =
     (case map_of ne dep_id of
        None \<Rightarrow> False
      | Some dep_exec \<Rightarrow>
          if NodeExecution.status dep_exec \<noteq> COMPLETED then False
          else deps_satisfied ne deps)"

definition are_dependencies_satisfied :: "PipelineExecution \<Rightarrow> PipelineNode \<Rightarrow> bool" where
  "are_dependencies_satisfied execution node =
     deps_satisfied (node_executions execution) (dependencies node)"

text \<open>
  \<^verbatim>\<open>_execute_node\<close>, lines 387-446. The lookup in line 389 is outside the \<^verbatim>\<open>try\<close>, so a
  missing node execution raises \<^verbatim>\<open>KeyError\<close> out of the task. The event callbacks are
  not modelled: \<^verbatim>\<open>_fire_event\<close> catches whatever they raise. The retry is the recursive
  call of line 429.
\<close>

function execute_node ::
  "(string \<Rightarrow> nat \<Rightarrow> outcome) \<Rightarrow> PipelineNode \<Rightarrow> run_state \<Rightarrow> error + run_state" where
  "execute_node work node st =
     (case map_of (node_executions (exec st)) (id' node) of
        None \<Rightarrow> Inl (KeyError (id' node))
      | Some node_exec \<Rightarrow>
          (if \<not> are_dependencies_satisfied (exec st) node then
             Inr (set_node_exec st (id' node)
                    (node_exec\<lparr>NodeExecution.status := SKIPPED,
                               NodeExecution.error_message := Some ''Dependencies not satisfied''\<rparr>))
           else
             (let running = node_exec\<lparr>NodeExecution.status := RUNNING\<rparr>;
                  st1 = set_node_exec st (id' node) running;
                  k = runs_of (trace st1) (id' node);
                  st2 = st1\<lparr>trace := trace st1 @ [RunWork (id' node) k]\<rparr>
              in (case work (id' node) k of
                    Returns \<Rightarrow>
                      Inr (set_node_exec st2 (id' node)
                             (running\<lparr>NodeExecution.status := COMPLETED\<rparr>))
                  | TimesOut \<Rightarrow>
                      Inr (set_node_exec st2 (id' node)
                             (running\<lparr>NodeExecution.status := TIMEOUT,
                                      NodeExecution.error_message :=
                                        Some (''Node timed out after '' @ str_int (timeout node)
                                              @ '' seconds'')\<rparr>))
                  | Raises e \<Rightarrow>
                      (if NodeExecution.retry_count node_exec < PipelineNode.retry_count node then
                         execute_node work node
                           (set_node_exec st2 (id' node)
                              (running\<lparr>NodeExecution.status := FAILED,
                                       NodeExecution.error_message := Some e,
                                       NodeExecution.retry_count :=
                                         NodeExecution.retry_count node_exec + 1\<rparr>))
                       else
                         Inr (set_node_exec st2 (id' node)
                                (running\<lparr>NodeExecution.status := FAILED,
                                         NodeExecution.error_message := Some e\<rparr>)))))))"
  by pat_completeness auto

definition retries_left :: "PipelineNode \<Rightarrow> run_state \<Rightarrow> nat" where
  "retries_left node st =
     (case map_of (node_executions (exec st)) (id' node) of
        None \<Rightarrow> 0
      | Some ne \<Rightarrow> nat (PipelineNode.retry_count node - NodeExecution.retry_count ne))"

lemma map_of_dict_set: "map_of (dict_set d k v) = (map_of d)(k \<mapsto> v)"
  by (simp add: dict_set_def update_conv')

lemma node_executions_set_node_exec:
  "map_of (node_executions (exec (set_node_exec st i ne))) =
     (map_of (node_executions (exec st)))(i \<mapsto> ne)"
  by (simp add: set_node_exec_def map_of_dict_set)

termination execute_node
  by (relation "measure (\<lambda>(work, node, st). retries_left node st)")
     (auto simp: retries_left_def node_executions_set_node_exec)

declare execute_node.simps [simp del]

text \<open>
  The dataclass constructors with their default field values:
  \<^verbatim>\<open>PipelineNode(id, name, type, config, position)\<close> as \<^verbatim>\<open>add_node\<close> calls it,
  \<^verbatim>\<open>NodeExecution(node_id, node_name, status)\<close> and
  \<^verbatim>\<open>PipelineExecution(execution_id, pipeline_id, pipeline_name, status, started_at)\<close> as
  \<^verbatim>\<open>execute_pipeline\<close> calls them.
\<close>

definition PipelineNode_init :: "string \<Rightarrow> string \<Rightarrow> NodeType \<Rightarrow> pyval dict \<Rightarrow> PipelineNode" where
  "PipelineNode_init i nm ty cfg =
     \<lparr>id' = i, name = nm, type = ty, config = cfg, dependencies = [], timeout = 300,
      retry_count = 0, continue_on_error = False, environment = []\<rparr>"

definition NodeExecution_init :: "string \<Rightarrow> string \<Rightarrow> ExecutionStatus \<Rightarrow> NodeExecution" where
  "NodeExecution_init i nm s =
     \<lparr>node_id = i, node_name = nm, status = s, error_message = None, retry_count = 0\<rparr>"

definition PipelineExecution_init ::
  "string \<Rightarrow> string \<Rightarrow> ExecutionStatus \<Rightarrow> int \<Rightarrow> PipelineExecution" where
  "PipelineExecution_init eid pid s t =
     \<lparr>execution_id = eid, pipeline_id = pid, status = s, started_at = t, completed_at = None,
      node_executions = [], execution_order = [], current_stage = 0, total_stages = 0,
      error_message = None, cancelled_by = None\<rparr>"

text \<open>
  \<^verbatim>\<open>cancel_execution\<close>, lines 222-244, on the execution it finds (the queue is not part of
  the model).
\<close>

definition cancel_execution :: "string \<Rightarrow> int \<Rightarrow> PipelineExecution \<Rightarrow> PipelineExecution" where
  "cancel_execution who now execution =
     execution\<lparr>PipelineExecution.status := CANCELLED,
               cancelled_by := Some who,
               completed_at := Some now,
               node_executions :=
                 map (\<lambda>kv. (fst kv,
                        if NodeExecution.status (snd kv) = RUNNING
                        then (snd kv)\<lparr>NodeExecution.status := CANCELLED\<rparr> else snd kv))
                     (node_executions execution)\<rparr>"

text \<open>
  \<^verbatim>\<open>_execute_stage\<close>, lines 375-385. First a task is created for every node id of the stage;
  \<^verbatim>\<open>next(...)\<close> without a default raises \<^verbatim>\<open>StopIteration\<close> when the pipeline has no such
  node, which a coroutine turns into \<^verbatim>\<open>RuntimeError\<close>. Then
  \<^verbatim>\<open>gather(*tasks, return_exceptions=True)\<close> waits for all of them and swallows what a task
  raises. The tasks of a stage are run one after the other, in the order of their creation;
  the statements proved below about the decision taken after the barrier hold for whatever
  state the stage leaves.
\<close>

fun create_tasks :: "PipelineNode list \<Rightarrow> string list \<Rightarrow> error + PipelineNode list" where
  "create_tasks ns [] = Inr []"
| "create_tasks ns (nid # node_ids) =
     (case find_node ns nid of
        None \<Rightarrow> Inl (RuntimeError ''coroutine raised StopIteration'')
      | Some node \<Rightarrow>
         (case create_tasks ns node_ids of
            Inl e \<Rightarrow> Inl e
          | Inr tasks \<Rightarrow> Inr (node # tasks)))"

fun gather :: "(string \<Rightarrow> nat \<Rightarrow> outcome) \<Rightarrow> PipelineNode list \<Rightarrow> run_state \<Rightarrow> run_state" where
  "gather work [] st = st"
| "gather work (node # tasks) st =
     gather work tasks (case execute_node work node st of Inl e \<Rightarrow> st | Inr st' \<Rightarrow> st')"

definition execute_stage ::
  "(string \<Rightarrow> nat \<Rightarrow> outcome) \<Rightarrow> Pipeline \<Rightarrow> string list \<Rightarrow> run_state \<Rightarrow> error + run_state" where
  "execute_stage work pipeline node_ids st =
     (case create_tasks (nodes pipeline) node_ids of
        Inl e \<Rightarrow> Inl e
      | Inr tasks \<Rightarrow>
          Inr (gather work tasks
                 (st\<lparr>trace := trace st @
                        map (Dispatch (current_stage (exec st))) node_ids\<rparr>)))"

text \<open>
  The two generator expressions of lines 330-342. \<^verbatim>\<open>any\<close> stops at the first true element;
  subscripting \<^verbatim>\<open>node_executions\<close> or \<^verbatim>\<open>pipeline_nodes\<close> with a missing id raises
  \<^verbatim>\<open>KeyError\<close>.
\<close>

fun stage_failed :: "NodeExecution dict \<Rightarrow> string list \<Rightarrow> error + bool" where
  "stage_failed ne [] = Inr False"
| "stage_failed ne (nid # node_ids) =
     (case map_of ne nid of
        None \<Rightarrow> Inl (KeyError nid)
      | Some x \<Rightarrow> if NodeExecution.status x = FAILED then Inr True else stage_failed ne node_ids)"

fun continue_execution :: "PipelineNode dict \<Rightarrow> NodeExecution dict \<Rightarrow> string list \<Rightarrow> error + bool" where
  "continue_execution pn ne [] = Inr False"
| "continue_execution pn ne (nid # node_ids) =
     (case map_of ne nid of
        None \<Rightarrow> Inl (KeyError nid)
      | Some x \<Rightarrow>
          if NodeExecution.status x = FAILED then
            (case map_of pn nid of
               None \<Rightarrow> Inl (KeyError nid)
             | Some node \<Rightarrow>
                 if continue_on_error node then Inr True
                 else continue_execution pn ne node_ids)
          else continue_execution pn ne node_ids)"

text \<open>\<^verbatim>\<open>pipeline_nodes = {n.id: n for n in pipeline.nodes}\<close>\<close>

definition pipeline_nodes :: "Pipeline \<Rightarrow> PipelineNode dict" where
  "pipeline_nodes pipeline = foldl (\<lambda>d n. dict_set d (id' n) n) [] (nodes pipeline)"

text \<open>
  The loop over the stages in \<^verbatim>\<open>_start_execution\<close>, lines 316-347. It ends by running out
  of stages or by \<^verbatim>\<open>break\<close> (\<open>Finished\<close>), by the \<^verbatim>\<open>return\<close> of line 327
  (\<open>Returned\<close>), or by an exception (\<open>Raised\<close>). A cancellation comes from a concurrent
  call of \<^verbatim>\<open>cancel_execution\<close>: \<open>cancel i\<close> tells who cancels, and when, while stage
  \<open>i\<close> is running; the call takes effect before the check of line 326.
\<close>

datatype loop_exit = Finished | Returned | Raised error

fun run_stages ::
  "(string \<Rightarrow> nat \<Rightarrow> outcome) \<Rightarrow> (nat \<Rightarrow> (string \<times> int) option) \<Rightarrow> Pipeline \<Rightarrow>
   (nat \<times> string list) list \<Rightarrow> run_state \<Rightarrow> loop_exit \<times> run_state" where
  "run_stages work cancel pipeline [] st = (Finished, st)"
| "run_stages work cancel pipeline ((stage_index, node_ids) # rest) st =
     (let st1 = st\<lparr>exec := (exec st)\<lparr>current_stage := stage_index\<rparr>\<rparr> in
      (case execute_stage work pipeline node_ids st1 of
         Inl e \<Rightarrow> (Raised e, st1)
       | Inr st2' \<Rightarrow>
          (let st2 = (case cancel stage_index of
                        None \<Rightarrow> st2'
                      | Some (who, now) \<Rightarrow> st2'\<lparr>exec := cancel_execution who now (exec st2')\<rparr>)
           in if PipelineExecution.status (exec st2) = CANCELLED then (Returned, st2)
              else
               (case stage_failed (node_executions (exec st2)) node_ids of
                  Inl e \<Rightarrow> (Raised e, st2)
                | Inr failed \<Rightarrow>
                   (if failed then
                      (case continue_execution (pipeline_nodes pipeline)
                              (node_executions (exec st2)) node_ids of
                         Inl e \<Rightarrow> (Raised e, st2)
                       | Inr cont \<Rightarrow>
                          (if \<not> cont then
                             (Finished,
                              st2\<lparr>exec := (exec st2)
                                    \<lparr>PipelineExecution.status := FAILED,
                                     PipelineExecution.error_message :=
                                       Some ''Pipeline failed due to node failures''\<rparr>\<rparr>)
                           else run_stages work cancel pipeline rest st2))
                    else run_stages work cancel pipeline rest st2)))))"

text \<open>
  \<^verbatim>\<open>_load_pipeline\<close>, lines 594-598: the storage collaborator is mocked in the source and
  finds no pipeline. \<^verbatim>\<open>_start_execution\<close> is modelled for any loader.
\<close>

definition load_pipeline :: "string \<Rightarrow> Pipeline option" where
  "load_pipeline pid = None"

text \<open>
  \<^verbatim>\<open>_start_execution\<close>, lines 294-373, on the execution found in the table; \<open>t0\<close> and
  \<open>t1\<close> are the clock readings at the start and at the end.
\<close>

definition start_execution ::
  "(string \<Rightarrow> nat \<Rightarrow> outcome) \<Rightarrow> (nat \<Rightarrow> (string \<times> int) option) \<Rightarrow>
   (string \<Rightarrow> Pipeline option) \<Rightarrow> int \<Rightarrow> int \<Rightarrow> PipelineExecution \<Rightarrow> run_state" where
  "start_execution work cancel load t0 t1 execution =
     (let e1 = execution\<lparr>PipelineExecution.status := RUNNING, started_at := t0\<rparr>;
          st0 = \<lparr>exec = e1, trace = []\<rparr>;
          r = (case load (PipelineExecution.pipeline_id e1) of
                 None \<Rightarrow>
                   (Raised (Exception (''Pipeline '' @ PipelineExecution.pipeline_id e1 @ '' not found'')),
                    st0)
               | Some pipeline \<Rightarrow>
                   run_stages work cancel pipeline (enumerate 0 (execution_order e1)) st0)
      in (case fst r of
            Returned \<Rightarrow> snd r
          | Finished \<Rightarrow>
              (snd r)\<lparr>exec := (exec (snd r))
                 \<lparr>PipelineExecution.status :=
                    (if PipelineExecution.status (exec (snd r)) = RUNNING then COMPLETED
                     else PipelineExecution.status (exec (snd r))),
                  completed_at := Some t1\<rparr>\<rparr>
          | Raised e \<Rightarrow>
              (snd r)\<lparr>exec := (exec (snd r))
                 \<lparr>PipelineExecution.status := FAILED,
                  PipelineExecution.error_message := Some (str_error e),
                  completed_at := Some t1\<rparr>\<rparr>))"

text \<open>
  One pass of \<^verbatim>\<open>_monitoring_loop\<close>, lines 276-292, over the table of active executions.
  Line 281 reads \<^verbatim>\<open>execution.is_completed\<close> on a \<^verbatim>\<open>PipelineExecution\<close>; that class has no
  such attribute (only \<^verbatim>\<open>NodeExecution\<close> defines the property), so the read raises
  \<^verbatim>\<open>AttributeError\<close>. The \<^verbatim>\<open>except Exception\<close> of line 291 catches it and logs it, and
  the pass ends without deleting anything.
\<close>

definition PipelineExecution_is_completed :: "PipelineExecution \<Rightarrow> error + bool" where
  "PipelineExecution_is_completed execution =
     Inl (AttributeError ''PipelineExecution object has no attribute is_completed'')"

fun to_remove :: "int \<Rightarrow> PipelineExecution dict \<Rightarrow> error + string list" where
  "to_remove cutoff_time [] = Inr []"
| "to_remove cutoff_time ((eid, execution) # rest) =
     (case PipelineExecution_is_completed execution of
        Inl e \<Rightarrow> Inl e
      | Inr c \<Rightarrow>
         (case to_remove cutoff_time rest of
            Inl e \<Rightarrow> Inl e
          | Inr ids \<Rightarrow>
             Inr (if c \<and> (case completed_at execution of
                                None \<Rightarrow> False
                              | Some t \<Rightarrow> t < cutoff_time)
                  then eid # ids else ids)))"

definition monitoring_pass :: "int \<Rightarrow> PipelineExecution dict \<Rightarrow> PipelineExecution dict" where
  "monitoring_pass now active_executions =
     (case to_remove (now - 3600) active_executions of
        Inl e \<Rightarrow> active_executions
      | Inr ids \<Rightarrow> filter (\<lambda>kv. fst kv \<notin> set ids) active_executions)"

section \<open>The log buffer (execution/LogStreamer.py)\<close>

datatype LogLevel = DEBUG | INFO | WARNING | ERROR | CRITICAL

record LogEntry =
  timestamp :: int
  level :: LogLevel
  source :: string
  message :: string
  step_id :: "string option"
  log_pipeline_id :: "string option"
  metadata :: "string dict"

text \<open>The constructor \<^verbatim>\<open>LogEntry(timestamp, level, source, message)\<close> with its defaults.\<close>

definition LogEntry_init :: "int \<Rightarrow> LogLevel \<Rightarrow> string \<Rightarrow> string \<Rightarrow> LogEntry" where
  "LogEntry_init t l src msg =
     \<lparr>timestamp = t, level = l, source = src, message = msg, step_id = None,
      log_pipeline_id = None, metadata = []\<rparr>"

text \<open>
  \<^verbatim>\<open>LogBuffer\<close> holds \<^verbatim>\<open>deque(maxlen=max_size)\<close>. The constructor of a deque raises
  \<^verbatim>\<open>ValueError\<close> for a negative \<^verbatim>\<open>maxlen\<close>. The subscriber tables are not part of the
  model: \<^verbatim>\<open>add_entry\<close> only schedules the notification task, which never touches
  \<^verbatim>\<open>entries\<close>.
\<close>

record LogBuffer =
  max_size :: int
  entries :: "LogEntry list"

definition LogBuffer_init :: "int \<Rightarrow> error + LogBuffer" where
  "LogBuffer_init m =
     (if m < 0 then Inl (ValueError ''maxlen must be non-negative'')
      else Inr \<lparr>max_size = m, entries = []\<rparr>)"

text \<open>
  \<^verbatim>\<open>deque.append\<close> on a bounded deque: the item is added on the right and, when the
  deque is then longer than \<^verbatim>\<open>maxlen\<close>, one item is removed on the left.
\<close>

definition deque_append :: "int \<Rightarrow> 'a list \<Rightarrow> 'a \<Rightarrow> 'a list" where
  "deque_append maxlen xs x =
     (let ys = xs @ [x] in if int (length ys) > maxlen then tl ys else ys)"

definition add_entry :: "LogBuffer \<Rightarrow> LogEntry \<Rightarrow> LogBuffer" where
  "add_entry buf entry = buf\<lparr>entries := deque_append (max_size buf) (entries buf) entry\<rparr>"

section \<open>The stage computation: \<^verbatim>\<open>get_execution_order\<close> and \<^verbatim>\<open>_calculate_execution_order\<close>\<close>















subsection \<open>Notions used to state what the stage computation does\<close>





section \<open>Example objects\<close>

text \<open>
  A pipeline with the nodes \<open>a\<close>, \<open>b\<close> (no dependencies) and \<open>c\<close> (depending on \<open>a\<close>),
  an execution of it with the stages \<open>[[a, b], [c]]\<close>, work that always fails, and an
  environment in which nobody cancels. The flag is \<^verbatim>\<open>continue_on_error\<close> of node \<open>a\<close>.
\<close>

definition always_raises :: "string \<Rightarrow> nat \<Rightarrow> outcome" where
  "always_raises i k = Raises ''exit status 1''"

definition never_cancelled :: "nat \<Rightarrow> (string \<times> int) option" where
  "never_cancelled i = None"

definition demo_pipeline :: "bool \<Rightarrow> Pipeline" where
  "demo_pipeline coe =
     \<lparr>Pipeline.pipeline_id = ''p1'', pipeline_name = ''Demo'',
      nodes = [(PipelineNode_init ''a'' ''Lint'' TEST [])\<lparr>continue_on_error := coe\<rparr>,
               PipelineNode_init ''b'' ''Unit tests'' TEST [],
               (PipelineNode_init ''c'' ''Report'' NOTIFICATION [])\<lparr>dependencies := [''a'']\<rparr>],
      connections = [(''a'', ''c'')], created_at = 0, updated_at = 0, version = ''1.0.0''\<rparr>"

definition demo_loader :: "bool \<Rightarrow> string \<Rightarrow> Pipeline option" where
  "demo_loader coe pid = Some (demo_pipeline coe)"

definition demo_execution :: "ExecutionStatus \<Rightarrow> PipelineExecution" where
  "demo_execution s =
     (PipelineExecution_init ''e1'' ''p1'' s 0)
       \<lparr>node_executions := [(''a'', NodeExecution_init ''a'' ''Lint'' PENDING),
                             (''b'', NodeExecution_init ''b'' ''Unit tests'' PENDING),
                             (''c'', NodeExecution_init ''c'' ''Report'' PENDING)],
        execution_order := [[''a'', ''b''], [''c'']], total_stages := 2\<rparr>"

text \<open>
  A Deploy node for production with the two required fields (and more configuration as
  given), and built-ins for the validator: no text for floats, lists and dicts, no string
  parses as a float, the validators of the other node types report nothing.
\<close>

definition demo_builtins :: builtins where
  "demo_builtins =
     \<lparr>render = (\<lambda>v. ''''), parse_float = (\<lambda>s. None), other_validators = (\<lambda>n. Inr [])\<rparr>"

definition demo_deploy_node :: "pyval dict \<Rightarrow> PipelineNode" where
  "demo_deploy_node extra =
     PipelineNode_init ''d1'' ''Deploy'' DEPLOY
       ([(''target_environment'', PStr ''production''),
         (''deploy_command'', PStr ''kubectl apply -f app.yaml'')] @ extra)"



section \<open>Properties\<close>

subsection \<open>connect_nodes\<close>

lemma find_node_None: "find_node ns i = None \<longleftrightarrow> i \<notin> id' ` set ns"
  by (auto simp: find_node_def find_None_iff)

lemma find_conn_None:
  "List.find (\<lambda>c. fst c = a \<and> snd c = b) cs = None \<longleftrightarrow> (a, b) \<notin> set cs"
  by (auto simp: find_None_iff)

lemma update_node_split:
  "i \<in> id' ` set ns \<Longrightarrow>
   \<exists>pre n post. ns = pre @ n # post \<and> i \<notin> id' ` set pre \<and> id' n = i \<and>
                 update_node i f ns = pre @ f n # post"
proof (induction ns)
  case Nil
  then show ?case by simp
next
  case (Cons a ns)
  show ?case
  proof (cases "id' a = i")
    case True
    then have "a # ns = [] @ a # ns \<and> i \<notin> id' ` set [] \<and> id' a = i \<and>
               update_node i f (a # ns) = [] @ f a # ns"
      by simp
    then show ?thesis by blast
  next
    case False
    with Cons.prems have "i \<in> id' ` set ns" by auto
    from Cons.IH [OF this] obtain pre n post where
      h: "ns = pre @ n # post" "i \<notin> id' ` set pre" "id' n = i"
         "update_node i f ns = pre @ f n # post"
      by blast
    with False have "a # ns = (a # pre) @ n # post \<and> i \<notin> id' ` set (a # pre) \<and> id' n = i \<and>
                     update_node i f (a # ns) = (a # pre) @ f n # post"
      by auto
    then show ?thesis by blast
  qed
qed

text \<open>
  C9. \<^verbatim>\<open>connect_nodes\<close> returns False and leaves the pipeline entirely unchanged when an
  endpoint id names no node of the pipeline or the connection (from, to) already exists.
  Otherwise it returns True, appends exactly the connection (from, to), sets
  \<^verbatim>\<open>updated_at\<close>, and changes only the (first) node with the target id, whose dependency
  list gets the source id appended unless it is already there.
\<close>

theorem connect_nodes_spec:
  "(f \<notin> id' ` set (nodes p) \<or> t \<notin> id' ` set (nodes p) \<or> (f, t) \<in> set (connections p)
      \<longrightarrow> connect_nodes now p f t = (False, p)) \<and>
   (f \<in> id' ` set (nodes p) \<and> t \<in> id' ` set (nodes p) \<and> (f, t) \<notin> set (connections p)
      \<longrightarrow> (\<exists>pre n post.
            nodes p = pre @ n # post \<and> t \<notin> id' ` set pre \<and> id' n = t \<and>
            connect_nodes now p f t =
              (True,
               p\<lparr>connections := connections p @ [(f, t)],
                 nodes := pre @
                   n\<lparr>dependencies := (if f \<in> set (dependencies n) then dependencies n
                                       else dependencies n @ [f])\<rparr> # post,
                 updated_at := now\<rparr>)))"
proof (intro conjI impI)
  assume "f \<notin> id' ` set (nodes p) \<or> t \<notin> id' ` set (nodes p) \<or> (f, t) \<in> set (connections p)"
  then consider "find_node (nodes p) f = None" | "find_node (nodes p) t = None"
    | "List.find (\<lambda>c. fst c = f \<and> snd c = t) (connections p) \<noteq> None"
    by (auto simp: find_node_None find_conn_None)
  then show "connect_nodes now p f t = (False, p)"
    by cases (auto simp: connect_nodes_def split: option.splits)
next
  assume a: "f \<in> id' ` set (nodes p) \<and> t \<in> id' ` set (nodes p) \<and> (f, t) \<notin> set (connections p)"
  let ?g = "\<lambda>n. if f \<in> set (dependencies n) then n else n\<lparr>dependencies := dependencies n @ [f]\<rparr>"
  from a obtain pre n post where
    h: "nodes p = pre @ n # post" "t \<notin> id' ` set pre" "id' n = t"
       "update_node t ?g (nodes p) = pre @ ?g n # post"
    using update_node_split [of t "nodes p" ?g] by blast
  have g: "?g n = n\<lparr>dependencies := (if f \<in> set (dependencies n) then dependencies n
                                      else dependencies n @ [f])\<rparr>"
    by simp
  from a have "find_node (nodes p) f \<noteq> None" "find_node (nodes p) t \<noteq> None"
    "List.find (\<lambda>c. fst c = f \<and> snd c = t) (connections p) = None"
    by (simp_all add: find_node_None find_conn_None)
  then have "connect_nodes now p f t =
      (True, p\<lparr>connections := connections p @ [(f, t)],
               nodes := update_node t ?g (nodes p), updated_at := now\<rparr>)"
    by (auto simp: connect_nodes_def split: option.splits)
  with h g show "\<exists>pre n post.
            nodes p = pre @ n # post \<and> t \<notin> id' ` set pre \<and> id' n = t \<and>
            connect_nodes now p f t =
              (True,
               p\<lparr>connections := connections p @ [(f, t)],
                 nodes := pre @
                   n\<lparr>dependencies := (if f \<in> set (dependencies n) then dependencies n
                                       else dependencies n @ [f])\<rparr> # post,
                 updated_at := now\<rparr>)"
    by (intro exI [of _ pre] exI [of _ n] exI [of _ post]) simp
qed

theorem connect_nodes_spec_witness:
  "connect_nodes 7
     \<lparr>Pipeline.pipeline_id = ''p1'', pipeline_name = ''Demo'',
      nodes = [PipelineNode_init ''a'' ''Checkout'' SOURCE [],
               PipelineNode_init ''b'' ''Build'' BUILD []],
      connections = [(''a'', ''b'')], created_at = 0, updated_at = 0, version = ''1.0.0''\<rparr>
     ''a'' ''b''
   = (False,
      \<lparr>Pipeline.pipeline_id = ''p1'', pipeline_name = ''Demo'',
       nodes = [PipelineNode_init ''a'' ''Checkout'' SOURCE [],
                PipelineNode_init ''b'' ''Build'' BUILD []],
       connections = [(''a'', ''b'')], created_at = 0, updated_at = 0, version = ''1.0.0''\<rparr>) \<and>
   connect_nodes 7
     \<lparr>Pipeline.pipeline_id = ''p1'', pipeline_name = ''Demo'',
      nodes = [PipelineNode_init ''a'' ''Checkout'' SOURCE [],
               PipelineNode_init ''b'' ''Build'' BUILD []],
      connections = [], created_at = 0, updated_at = 0, version = ''1.0.0''\<rparr>
     ''a'' ''b''
   = (True,
      \<lparr>Pipeline.pipeline_id = ''p1'', pipeline_name = ''Demo'',
       nodes = [PipelineNode_init ''a'' ''Checkout'' SOURCE [],
                (PipelineNode_init ''b'' ''Build'' BUILD [])\<lparr>dependencies := [''a'']\<rparr>],
       connections = [(''a'', ''b'')], created_at = 0, updated_at = 7, version = ''1.0.0''\<rparr>)"
  using connect_nodes_spec [of "''a''"
      "\<lparr>Pipeline.pipeline_id = ''p1'', pipeline_name = ''Demo'',
        nodes = [PipelineNode_init ''a'' ''Checkout'' SOURCE [],
                 PipelineNode_init ''b'' ''Build'' BUILD []],
        connections = [(''a'', ''b'')], created_at = 0, updated_at = 0, version = ''1.0.0''\<rparr>"
      "''b''" 7]
    connect_nodes_spec [of "''a''"
      "\<lparr>Pipeline.pipeline_id = ''p1'', pipeline_name = ''Demo'',
        nodes = [PipelineNode_init ''a'' ''Checkout'' SOURCE [],
                 PipelineNode_init ''b'' ''Build'' BUILD []],
        connections = [], created_at = 0, updated_at = 0, version = ''1.0.0''\<rparr>"
      "''b''" 7]
  by (auto simp: PipelineNode_init_def Cons_eq_append_conv)

subsection \<open>The log buffer\<close>

lemma deque_append_drop:
  assumes "0 \<le> m" "xs = drop (length es - nat m) es"
  shows "deque_append m xs e = drop (length (es @ [e]) - nat m) (es @ [e])"
proof (cases "length es < nat m")
  case True
  then have "\<not> m < 1 + int (length es)" by arith
  with True assms show ?thesis by (simp add: deque_append_def Let_def)
next
  case False
  then have le: "nat m \<le> length es" by simp
  with assms have len: "length xs = nat m" by simp
  have "xs @ [e] = drop (length es - nat m) (es @ [e])"
    using assms by simp
  then have "tl (xs @ [e]) = drop (Suc (length es - nat m)) (es @ [e])"
    by (simp only: drop_Suc tl_drop)
  moreover have "Suc (length es - nat m) = length (es @ [e]) - nat m"
    using le by simp
  ultimately have "tl (xs @ [e]) = drop (length (es @ [e]) - nat m) (es @ [e])"
    by simp
  moreover have "int (length (xs @ [e])) > m"
    using len assms by simp
  ultimately show ?thesis
    by (simp add: deque_append_def Let_def)
qed

lemma entries_foldl_add_entry:
  assumes "0 \<le> m"
  shows "entries (foldl add_entry \<lparr>max_size = m, entries = []\<rparr> es) = drop (length es - nat m) es
         \<and> max_size (foldl add_entry \<lparr>max_size = m, entries = []\<rparr> es) = m"
proof (induction es rule: rev_induct)
  case Nil
  then show ?case by simp
next
  case (snoc e es)
  then show ?case
    using deque_append_drop [OF assms, of _ es e] by (simp add: add_entry_def)
qed

text \<open>
  C8. After any sequence \<open>es\<close> of \<^verbatim>\<open>add_entry\<close> calls on a buffer constructed with
  capacity \<open>m\<close>, the buffer holds at most \<open>m\<close> entries, namely the last
  \<open>min (length es) m\<close> entries of \<open>es\<close> in insertion order; and adding to a full buffer
  drops exactly the oldest entry.
\<close>

theorem log_buffer_fifo:
  assumes "LogBuffer_init m = Inr b0"
  shows "int (length (entries (foldl add_entry b0 es))) \<le> m \<and>
         entries (foldl add_entry b0 es) = drop (length es - min (length es) (nat m)) es \<and>
         (int (length (entries (foldl add_entry b0 es))) = m \<longrightarrow>
            entries (add_entry (foldl add_entry b0 es) e) =
              tl (entries (foldl add_entry b0 es) @ [e]))"
proof -
  from assms have m: "0 \<le> m" and b0: "b0 = \<lparr>max_size = m, entries = []\<rparr>"
    by (auto simp: LogBuffer_init_def split: if_splits)
  let ?b = "foldl add_entry b0 es"
  have e: "entries ?b = drop (length es - nat m) es" and ms: "max_size ?b = m"
    using entries_foldl_add_entry [OF m, of es] b0 by simp_all
  have 1: "int (length (entries ?b)) \<le> m" using e m by simp
  have 2: "entries ?b = drop (length es - min (length es) (nat m)) es"
    using e by (simp add: min_def)
  have 3: "int (length (entries ?b)) = m \<longrightarrow> entries (add_entry ?b e) = tl (entries ?b @ [e])"
    using ms by (simp add: add_entry_def deque_append_def Let_def)
  from 1 2 3 show ?thesis by blast
qed

theorem log_buffer_fifo_witness:
  "LogBuffer_init 2 = Inr \<lparr>max_size = 2, entries = []\<rparr> \<and>
   entries (foldl add_entry \<lparr>max_size = 2, entries = []\<rparr>
      [LogEntry_init 1 INFO ''runner'' ''a'', LogEntry_init 2 INFO ''runner'' ''b'',
       LogEntry_init 3 ERROR ''runner'' ''c''])
     = [LogEntry_init 2 INFO ''runner'' ''b'', LogEntry_init 3 ERROR ''runner'' ''c''] \<and>
   entries (add_entry (foldl add_entry \<lparr>max_size = 2, entries = []\<rparr>
      [LogEntry_init 1 INFO ''runner'' ''a'', LogEntry_init 2 INFO ''runner'' ''b'',
       LogEntry_init 3 ERROR ''runner'' ''c'']) (LogEntry_init 4 DEBUG ''runner'' ''d''))
     = [LogEntry_init 3 ERROR ''runner'' ''c'', LogEntry_init 4 DEBUG ''runner'' ''d'']"
proof -
  have h: "LogBuffer_init 2 = Inr \<lparr>max_size = 2, entries = []\<rparr>"
    by (simp add: LogBuffer_init_def)
  from log_buffer_fifo [OF h,
      of "[LogEntry_init 1 INFO ''runner'' ''a'', LogEntry_init 2 INFO ''runner'' ''b'',
           LogEntry_init 3 ERROR ''runner'' ''c'']" "LogEntry_init 4 DEBUG ''runner'' ''d''"] h
  show ?thesis by simp
qed

subsection \<open>Running one node\<close>

lemma runs_of_append [simp]: "runs_of (tr @ tr') i = runs_of tr i + runs_of tr' i"
  by (simp add: runs_of_def)

lemma runs_of_simps [simp]:
  "runs_of [] i = 0"
  "runs_of (SetStatus j s # tr) i = runs_of tr i"
  "runs_of (Dispatch n j # tr) i = runs_of tr i"
  "runs_of (RunWork j k # tr) i = (if j = i then Suc (runs_of tr i) else runs_of tr i)"
  by (simp_all add: runs_of_def)

lemma trace_set_node_exec [simp]:
  "trace (set_node_exec st i ne) = trace st @ [SetStatus i (NodeExecution.status ne)]"
  by (simp add: set_node_exec_def)

lemma keys_set_node_exec:
  "i \<in> fst ` set (node_executions (exec st)) \<Longrightarrow>
   map fst (node_executions (exec (set_node_exec st i ne))) = map fst (node_executions (exec st))"
  by (simp add: set_node_exec_def dict_set_def update_keys)

lemma deps_satisfied_cong:
  "(\<And>d. d \<in> set deps \<Longrightarrow> map_of ne d = map_of ne' d) \<Longrightarrow>
   deps_satisfied ne deps = deps_satisfied ne' deps"
  by (induction deps) (auto split: option.splits)

lemma deps_satisfied_iff:
  "deps_satisfied ne deps \<longleftrightarrow>
   (\<forall>d \<in> set deps. \<exists>x. map_of ne d = Some x \<and> NodeExecution.status x = COMPLETED)"
  by (induction deps) (auto split: option.splits)

lemma execute_node_skipped:
  assumes "map_of (node_executions (exec st)) (id' node) = Some x"
    and "\<not> are_dependencies_satisfied (exec st) node"
  shows "execute_node work node st =
     Inr (set_node_exec st (id' node)
            (x\<lparr>NodeExecution.status := SKIPPED,
               NodeExecution.error_message := Some ''Dependencies not satisfied''\<rparr>))"
  using assms by (subst execute_node.simps) simp

lemma execute_node_run:
  assumes "map_of (node_executions (exec st)) (id' node) = Some x"
    and "are_dependencies_satisfied (exec st) node"
  shows "execute_node work node st =
     (let running = x\<lparr>NodeExecution.status := RUNNING\<rparr>;
          k = runs_of (trace st) (id' node);
          st2 = (set_node_exec st (id' node) running)
                  \<lparr>trace := trace st @ [SetStatus (id' node) RUNNING, RunWork (id' node) k]\<rparr>
      in (case work (id' node) k of
            Returns \<Rightarrow>
              Inr (set_node_exec st2 (id' node) (running\<lparr>NodeExecution.status := COMPLETED\<rparr>))
          | TimesOut \<Rightarrow>
              Inr (set_node_exec st2 (id' node)
                     (running\<lparr>NodeExecution.status := TIMEOUT,
                              NodeExecution.error_message :=
                                Some (''Node timed out after '' @ str_int (timeout node)
                                      @ '' seconds'')\<rparr>))
          | Raises e \<Rightarrow>
              (if NodeExecution.retry_count x < PipelineNode.retry_count node then
                 execute_node work node
                   (set_node_exec st2 (id' node)
                      (running\<lparr>NodeExecution.status := FAILED,
                               NodeExecution.error_message := Some e,
                               NodeExecution.retry_count := NodeExecution.retry_count x + 1\<rparr>))
               else
                 Inr (set_node_exec st2 (id' node)
                        (running\<lparr>NodeExecution.status := FAILED,
                                 NodeExecution.error_message := Some e\<rparr>)))))"
  using assms by (subst execute_node.simps) (simp add: Let_def split: outcome.split)


lemma execute_node_total:
  assumes "map_of (node_executions (exec st)) (id' node) = Some x"
  shows "\<exists>st' rest x'. execute_node work node st = Inr st' \<and> trace st' = trace st @ rest \<and>
           map_of (node_executions (exec st')) (id' node) = Some x' \<and> is_completed x'"
  using assms
proof (induction "retries_left node st" arbitrary: st x rule: less_induct)
  case less
  let ?i = "id' node"
  show ?case
  proof (cases "are_dependencies_satisfied (exec st) node")
    case False
    show ?thesis
      using execute_node_skipped [OF less.prems False, of work]
      by (simp add: node_executions_set_node_exec is_completed_def)
  next
    case True
    let ?k = "runs_of (trace st) ?i"
    let ?running = "x\<lparr>NodeExecution.status := RUNNING\<rparr>"
    let ?st2 = "(set_node_exec st ?i ?running)
                  \<lparr>trace := trace st @ [SetStatus ?i RUNNING, RunWork ?i ?k]\<rparr>"
    note run = execute_node_run [OF less.prems True, of work, unfolded Let_def]
    show ?thesis
    proof (cases "work ?i ?k")
      case Returns
      with run show ?thesis
        by (simp add: node_executions_set_node_exec is_completed_def)
    next
      case TimesOut
      with run show ?thesis
        by (simp add: node_executions_set_node_exec is_completed_def)
    next
      case (Raises e)
      show ?thesis
      proof (cases "NodeExecution.retry_count x < PipelineNode.retry_count node")
        case False
        with run Raises show ?thesis
          by (simp add: node_executions_set_node_exec is_completed_def)
      next
        case lt: True
        let ?x3 = "?running\<lparr>NodeExecution.status := FAILED,
                     NodeExecution.error_message := Some e,
                     NodeExecution.retry_count := NodeExecution.retry_count x + 1\<rparr>"
        let ?st3 = "set_node_exec ?st2 ?i ?x3"
        have m3: "map_of (node_executions (exec ?st3)) ?i = Some ?x3"
          by (simp add: node_executions_set_node_exec)
        have "retries_left node ?st3 < retries_left node st"
          using lt less.prems by (simp add: retries_left_def node_executions_set_node_exec)
        from less.hyps [OF this m3] obtain st' rest x' where
          r: "execute_node work node ?st3 = Inr st'" "trace st' = trace ?st3 @ rest"
             "map_of (node_executions (exec st')) ?i = Some x'" "is_completed x'"
          by blast
        have "execute_node work node st = Inr st'"
          using run Raises lt r(1) by simp
        moreover have "trace st' = trace st @ ([SetStatus ?i RUNNING, RunWork ?i ?k, SetStatus ?i FAILED] @ rest)"
          using r(2) by simp
        ultimately show ?thesis using r(3,4) by blast
      qed
    qed
  qed
qed


lemma are_deps_set_node_exec:
  "id' node \<notin> set (dependencies node) \<Longrightarrow>
   are_dependencies_satisfied (exec (set_node_exec st (id' node) ne)) node =
   are_dependencies_satisfied (exec st) node"
  unfolding are_dependencies_satisfied_def
  by (rule deps_satisfied_cong) (auto simp: node_executions_set_node_exec)

lemma are_deps_trace_update [simp]:
  "are_dependencies_satisfied (exec (st\<lparr>trace := tr\<rparr>)) node = are_dependencies_satisfied (exec st) node"
  by (simp add: are_dependencies_satisfied_def)

lemma retry_chain:
  assumes "map_of (node_executions (exec st)) (id' node) = Some x"
    and "NodeExecution.retry_count x \<le> PipelineNode.retry_count node"
    and "are_dependencies_satisfied (exec st) node"
    and "id' node \<notin> set (dependencies node)"
    and "\<And>k. work (id' node) k = Raises (msg k)"
    and "n = nat (PipelineNode.retry_count node - NodeExecution.retry_count x)"
  shows "\<exists>st'. execute_node work node st = Inr st' \<and>
           runs_of (trace st') (id' node) = runs_of (trace st) (id' node) + n + 1 \<and>
           map_of (node_executions (exec st')) (id' node) =
             Some (x\<lparr>NodeExecution.status := FAILED,
                     NodeExecution.error_message := Some (msg (runs_of (trace st) (id' node) + n)),
                     NodeExecution.retry_count := PipelineNode.retry_count node\<rparr>) \<and>
           map fst (node_executions (exec st')) = map fst (node_executions (exec st)) \<and>
           (\<forall>j. j \<noteq> id' node \<longrightarrow>
                map_of (node_executions (exec st')) j = map_of (node_executions (exec st)) j)"
  using assms(1,2,3,6)
proof (induction n arbitrary: st x)
  case 0
  let ?i = "id' node"
  from 0 have eq: "NodeExecution.retry_count x = PipelineNode.retry_count node" by simp
  have k: "?i \<in> fst ` set (node_executions (exec st))"
    using 0(1) by (metis map_of_eq_None_iff option.distinct(1))
  have x: "x\<lparr>NodeExecution.status := FAILED, NodeExecution.error_message := Some e,
             NodeExecution.retry_count := PipelineNode.retry_count node\<rparr>
           = x\<lparr>NodeExecution.status := FAILED, NodeExecution.error_message := Some e\<rparr>" for e
    using eq by simp
  show ?case
    using execute_node_run [OF 0(1) 0(3), of work] assms(5) [of "runs_of (trace st) ?i"] eq k
    by (simp add: Let_def set_node_exec_def dict_set_def update_keys update_conv' x)
next
  case (Suc n)
  let ?i = "id' node"
  let ?k = "runs_of (trace st) ?i"
  let ?running = "x\<lparr>NodeExecution.status := RUNNING\<rparr>"
  let ?st2 = "(set_node_exec st ?i ?running)
                \<lparr>trace := trace st @ [SetStatus ?i RUNNING, RunWork ?i ?k]\<rparr>"
  let ?x3 = "?running\<lparr>NodeExecution.status := FAILED,
               NodeExecution.error_message := Some (msg ?k),
               NodeExecution.retry_count := NodeExecution.retry_count x + 1\<rparr>"
  let ?st3 = "set_node_exec ?st2 ?i ?x3"
  from Suc.prems have lt: "NodeExecution.retry_count x < PipelineNode.retry_count node" by simp
  have step: "execute_node work node st = execute_node work node ?st3"
    using execute_node_run [OF Suc.prems(1) Suc.prems(3), of work] assms(5) [of ?k] lt
    by (simp add: Let_def)
  have k: "?i \<in> fst ` set (node_executions (exec st))"
    using Suc.prems(1) by (metis map_of_eq_None_iff option.distinct(1))
  have m3: "map_of (node_executions (exec ?st3)) ?i = Some ?x3"
    by (simp add: node_executions_set_node_exec)
  have le3: "NodeExecution.retry_count ?x3 \<le> PipelineNode.retry_count node"
    using lt by simp
  have d3: "are_dependencies_satisfied (exec ?st3) node"
    using Suc.prems(3) assms(4) by (simp add: are_deps_set_node_exec)
  have n3: "n = nat (PipelineNode.retry_count node - NodeExecution.retry_count ?x3)"
    using Suc.prems(4) by simp
  from Suc.IH [OF m3 le3 d3 n3] obtain st' where
    r: "execute_node work node ?st3 = Inr st'"
       "runs_of (trace st') ?i = runs_of (trace ?st3) ?i + n + 1"
       "map_of (node_executions (exec st')) ?i =
          Some (?x3\<lparr>NodeExecution.status := FAILED,
                  NodeExecution.error_message := Some (msg (runs_of (trace ?st3) ?i + n)),
                  NodeExecution.retry_count := PipelineNode.retry_count node\<rparr>)"
       "map fst (node_executions (exec st')) = map fst (node_executions (exec ?st3))"
       "\<forall>j. j \<noteq> ?i \<longrightarrow>
          map_of (node_executions (exec st')) j = map_of (node_executions (exec ?st3)) j"
    by blast
  have runs3: "runs_of (trace ?st3) ?i = Suc ?k" by simp
  have keys3: "map fst (node_executions (exec ?st3)) = map fst (node_executions (exec st))"
    using k by (simp add: set_node_exec_def dict_set_def update_keys)
  have oth3: "j \<noteq> ?i \<Longrightarrow>
        map_of (node_executions (exec ?st3)) j = map_of (node_executions (exec st)) j" for j
    by (simp add: node_executions_set_node_exec)
  show ?case
    using step r runs3 keys3 oth3 by simp
qed

text \<open>
  C3. A node with \<^verbatim>\<open>retry_count = N\<close> (\<open>N \<ge> 0\<close>) whose work raises on every run, started
  on its fresh node execution with its dependencies satisfied: the work is run exactly
  \<open>N + 1\<close> times, every retry increments the retry counter of the same node execution
  (it ends at \<open>N\<close>; the keys of \<^verbatim>\<open>node_executions\<close> and every other entry are
  unchanged), and the node execution ends Failed with the message of the last error.
\<close>

theorem retry_exhaustion:
  assumes "map_of (node_executions (exec st)) (id' node) = Some x"
    and "NodeExecution.retry_count x = 0"
    and "0 \<le> PipelineNode.retry_count node"
    and "are_dependencies_satisfied (exec st) node"
    and "id' node \<notin> set (dependencies node)"
    and "\<And>k. work (id' node) k = Raises (msg k)"
  shows "\<exists>st'. execute_node work node st = Inr st' \<and>
           runs_of (trace st') (id' node) =
             runs_of (trace st) (id' node) + nat (PipelineNode.retry_count node) + 1 \<and>
           map_of (node_executions (exec st')) (id' node) =
             Some (x\<lparr>NodeExecution.status := FAILED,
                     NodeExecution.error_message :=
                       Some (msg (runs_of (trace st) (id' node) + nat (PipelineNode.retry_count node))),
                     NodeExecution.retry_count := PipelineNode.retry_count node\<rparr>) \<and>
           map fst (node_executions (exec st')) = map fst (node_executions (exec st)) \<and>
           (\<forall>j. j \<noteq> id' node \<longrightarrow>
                map_of (node_executions (exec st')) j = map_of (node_executions (exec st)) j)"
  using retry_chain [OF assms(1) _ assms(4) assms(5), of work msg "nat (PipelineNode.retry_count node)"]
    assms(2,3,6)
  by simp

theorem retry_exhaustion_witness:
  "\<exists>st'. execute_node (\<lambda>i k. Raises ''exit status 1'')
            ((PipelineNode_init ''n1'' ''Build'' BUILD [])\<lparr>PipelineNode.retry_count := 2\<rparr>)
            \<lparr>exec = (PipelineExecution_init ''e1'' ''p1'' RUNNING 0)
                      \<lparr>node_executions := [(''n1'', NodeExecution_init ''n1'' ''Build'' PENDING)]\<rparr>,
             trace = []\<rparr> = Inr st' \<and>
         runs_of (trace st') ''n1'' = 3 \<and>
         map_of (node_executions (exec st')) ''n1'' =
           Some \<lparr>node_id = ''n1'', node_name = ''Build'', status = FAILED,
                 error_message = Some ''exit status 1'', retry_count = 2\<rparr>"
  using retry_exhaustion [of
      "\<lparr>exec = (PipelineExecution_init ''e1'' ''p1'' RUNNING 0)
                 \<lparr>node_executions := [(''n1'', NodeExecution_init ''n1'' ''Build'' PENDING)]\<rparr>,
        trace = []\<rparr>"
      "(PipelineNode_init ''n1'' ''Build'' BUILD [])\<lparr>PipelineNode.retry_count := 2\<rparr>"
      "NodeExecution_init ''n1'' ''Build'' PENDING"
      "\<lambda>i k. Raises ''exit status 1''" "\<lambda>k. ''exit status 1''"]
  by (auto simp: PipelineNode_init_def NodeExecution_init_def PipelineExecution_init_def
        are_dependencies_satisfied_def numeral_3_eq_3)

lemma set_node_exec_twice:
  "set_node_exec ((set_node_exec st i a)\<lparr>trace := tr\<rparr>) i b =
     st\<lparr>exec := (exec st)\<lparr>node_executions := dict_set (node_executions (exec st)) i b\<rparr>,
        trace := tr @ [SetStatus i (NodeExecution.status b)]\<rparr>"
  by (simp add: set_node_exec_def dict_set_def)

text \<open>
  C5. When some dependency of a launched node has no node execution or one whose status is
  not Completed, the node execution becomes Skipped with the message
  \<^verbatim>\<open>Dependencies not satisfied\<close> and the work is not run (the only event is that status
  assignment). When every dependency is Completed, the node is set Running and its work is
  run, and what the run leaves is decided by the outcome of the work: Completed when it
  returns, Timeout with its message when it is cut off, and, when it raises, Failed with the
  error, followed by a retry from that state if the retry counter allows one. In every case
  the run ends with the node execution in a final status.
\<close>

theorem dependency_gate:
  assumes "map_of (node_executions (exec st)) (id' node) = Some x"
  shows "((\<exists>d \<in> set (dependencies node).
             \<forall>y. map_of (node_executions (exec st)) d = Some y \<longrightarrow>
                  NodeExecution.status y \<noteq> COMPLETED) \<longrightarrow>
          execute_node work node st =
            Inr (st\<lparr>exec := (exec st)\<lparr>node_executions :=
                       dict_set (node_executions (exec st)) (id' node)
                         (x\<lparr>NodeExecution.status := SKIPPED,
                            NodeExecution.error_message := Some ''Dependencies not satisfied''\<rparr>)\<rparr>,
                    trace := trace st @ [SetStatus (id' node) SKIPPED]\<rparr>)) \<and>
         ((\<forall>d \<in> set (dependencies node).
             \<exists>y. map_of (node_executions (exec st)) d = Some y \<and>
                  NodeExecution.status y = COMPLETED) \<longrightarrow>
          (\<exists>st' rest x'. execute_node work node st = Inr st' \<and>
             trace st' = trace st @ SetStatus (id' node) RUNNING #
                           RunWork (id' node) (runs_of (trace st) (id' node)) # rest \<and>
             map_of (node_executions (exec st')) (id' node) = Some x' \<and>
             is_completed x') \<and>
          execute_node work node st =
            (let i = id' node; k = runs_of (trace st) i;
                 ran = (\<lambda>x'. st\<lparr>exec := (exec st)\<lparr>node_executions :=
                                    dict_set (node_executions (exec st)) i x'\<rparr>,
                                trace := trace st @ [SetStatus i RUNNING, RunWork i k,
                                                     SetStatus i (NodeExecution.status x')]\<rparr>)
             in case work i k of
                  Returns \<Rightarrow> Inr (ran (x\<lparr>NodeExecution.status := COMPLETED\<rparr>))
                | TimesOut \<Rightarrow>
                    Inr (ran (x\<lparr>NodeExecution.status := TIMEOUT,
                                NodeExecution.error_message :=
                                  Some (''Node timed out after '' @ str_int (timeout node)
                                        @ '' seconds'')\<rparr>))
                | Raises e \<Rightarrow>
                    if NodeExecution.retry_count x < PipelineNode.retry_count node then
                      execute_node work node
                        (ran (x\<lparr>NodeExecution.status := FAILED,
                                NodeExecution.error_message := Some e,
                                NodeExecution.retry_count := NodeExecution.retry_count x + 1\<rparr>))
                    else
                      Inr (ran (x\<lparr>NodeExecution.status := FAILED,
                                  NodeExecution.error_message := Some e\<rparr>))))"
proof (intro conjI impI)
  assume "\<exists>d \<in> set (dependencies node).
             \<forall>y. map_of (node_executions (exec st)) d = Some y \<longrightarrow>
                  NodeExecution.status y \<noteq> COMPLETED"
  then have "\<not> are_dependencies_satisfied (exec st) node"
    by (auto simp: are_dependencies_satisfied_def deps_satisfied_iff)
  from execute_node_skipped [OF assms this, of work]
  show "execute_node work node st =
            Inr (st\<lparr>exec := (exec st)\<lparr>node_executions :=
                       dict_set (node_executions (exec st)) (id' node)
                         (x\<lparr>NodeExecution.status := SKIPPED,
                            NodeExecution.error_message := Some ''Dependencies not satisfied''\<rparr>)\<rparr>,
                    trace := trace st @ [SetStatus (id' node) SKIPPED]\<rparr>)"
    by (simp add: set_node_exec_def)
next
  let ?i = "id' node"
  let ?k = "runs_of (trace st) ?i"
  assume "\<forall>d \<in> set (dependencies node).
             \<exists>y. map_of (node_executions (exec st)) d = Some y \<and>
                  NodeExecution.status y = COMPLETED"
  then have sat: "are_dependencies_satisfied (exec st) node"
    by (simp add: are_dependencies_satisfied_def deps_satisfied_iff)
  note run = execute_node_run [OF assms sat, of work, unfolded Let_def]
  show "\<exists>st' rest x'. execute_node work node st = Inr st' \<and>
             trace st' = trace st @ SetStatus ?i RUNNING # RunWork ?i ?k # rest \<and>
             map_of (node_executions (exec st')) ?i = Some x' \<and>
             is_completed x'"
  proof (cases "work ?i ?k")
    case Returns
    with run show ?thesis by (simp add: node_executions_set_node_exec is_completed_def)
  next
    case TimesOut
    with run show ?thesis by (simp add: node_executions_set_node_exec is_completed_def)
  next
    case (Raises e)
    show ?thesis
    proof (cases "NodeExecution.retry_count x < PipelineNode.retry_count node")
      case False
      with run Raises show ?thesis by (simp add: node_executions_set_node_exec is_completed_def)
    next
      case True
      let ?x3 = "x\<lparr>NodeExecution.status := FAILED, NodeExecution.error_message := Some e,
                    NodeExecution.retry_count := NodeExecution.retry_count x + 1\<rparr>"
      let ?st3 = "set_node_exec
                    ((set_node_exec st ?i (x\<lparr>NodeExecution.status := RUNNING\<rparr>))
                       \<lparr>trace := trace st @ [SetStatus ?i RUNNING, RunWork ?i ?k]\<rparr>) ?i ?x3"
      have "map_of (node_executions (exec ?st3)) ?i = Some ?x3"
        by (simp add: node_executions_set_node_exec)
      from execute_node_total [OF this, of work] obtain st' rest x' where
        r: "execute_node work node ?st3 = Inr st'" "trace st' = trace ?st3 @ rest"
           "map_of (node_executions (exec st')) ?i = Some x'" "is_completed x'"
        by blast
      have "execute_node work node st = Inr st'"
        using run Raises True r(1) by simp
      moreover have "trace st' = trace st @ SetStatus ?i RUNNING # RunWork ?i ?k #
                                   (SetStatus ?i FAILED # rest)"
        using r(2) by simp
      ultimately show ?thesis using r(3,4) by blast
    qed
  qed
next
  let ?i = "id' node"
  let ?k = "runs_of (trace st) ?i"
  assume "\<forall>d \<in> set (dependencies node).
             \<exists>y. map_of (node_executions (exec st)) d = Some y \<and>
                  NodeExecution.status y = COMPLETED"
  then have sat: "are_dependencies_satisfied (exec st) node"
    by (simp add: are_dependencies_satisfied_def deps_satisfied_iff)
  show "execute_node work node st =
            (let i = id' node; k = runs_of (trace st) i;
                 ran = (\<lambda>x'. st\<lparr>exec := (exec st)\<lparr>node_executions :=
                                    dict_set (node_executions (exec st)) i x'\<rparr>,
                                trace := trace st @ [SetStatus i RUNNING, RunWork i k,
                                                     SetStatus i (NodeExecution.status x')]\<rparr>)
             in case work i k of
                  Returns \<Rightarrow> Inr (ran (x\<lparr>NodeExecution.status := COMPLETED\<rparr>))
                | TimesOut \<Rightarrow>
                    Inr (ran (x\<lparr>NodeExecution.status := TIMEOUT,
                                NodeExecution.error_message :=
                                  Some (''Node timed out after '' @ str_int (timeout node)
                                        @ '' seconds'')\<rparr>))
                | Raises e \<Rightarrow>
                    if NodeExecution.retry_count x < PipelineNode.retry_count node then
                      execute_node work node
                        (ran (x\<lparr>NodeExecution.status := FAILED,
                                NodeExecution.error_message := Some e,
                                NodeExecution.retry_count := NodeExecution.retry_count x + 1\<rparr>))
                    else
                      Inr (ran (x\<lparr>NodeExecution.status := FAILED,
                                  NodeExecution.error_message := Some e\<rparr>)))"
    unfolding execute_node_run [OF assms sat, of work] Let_def set_node_exec_twice
    by (simp split: outcome.split)
qed

theorem dependency_gate_witness:
  "execute_node (\<lambda>i k. Returns)
     ((PipelineNode_init ''n2'' ''Test'' TEST [])\<lparr>dependencies := [''n1'']\<rparr>)
     \<lparr>exec = (PipelineExecution_init ''e1'' ''p1'' RUNNING 0)
               \<lparr>node_executions := [(''n1'', NodeExecution_init ''n1'' ''Build'' SKIPPED),
                                     (''n2'', NodeExecution_init ''n2'' ''Test'' PENDING)]\<rparr>,
      trace = []\<rparr>
   = Inr \<lparr>exec = (PipelineExecution_init ''e1'' ''p1'' RUNNING 0)
               \<lparr>node_executions := [(''n1'', NodeExecution_init ''n1'' ''Build'' SKIPPED),
                                     (''n2'', (NodeExecution_init ''n2'' ''Test'' SKIPPED)
                                        \<lparr>NodeExecution.error_message :=
                                            Some ''Dependencies not satisfied''\<rparr>)]\<rparr>,
          trace = [SetStatus ''n2'' SKIPPED]\<rparr> \<and>
   execute_node (\<lambda>i k. Returns)
     ((PipelineNode_init ''n2'' ''Test'' TEST [])\<lparr>dependencies := [''n1'']\<rparr>)
     \<lparr>exec = (PipelineExecution_init ''e1'' ''p1'' RUNNING 0)
               \<lparr>node_executions := [(''n1'', NodeExecution_init ''n1'' ''Build'' COMPLETED),
                                     (''n2'', NodeExecution_init ''n2'' ''Test'' PENDING)]\<rparr>,
      trace = []\<rparr>
   = Inr \<lparr>exec = (PipelineExecution_init ''e1'' ''p1'' RUNNING 0)
               \<lparr>node_executions := [(''n1'', NodeExecution_init ''n1'' ''Build'' COMPLETED),
                                     (''n2'', NodeExecution_init ''n2'' ''Test'' COMPLETED)]\<rparr>,
          trace = [SetStatus ''n2'' RUNNING, RunWork ''n2'' 0, SetStatus ''n2'' COMPLETED]\<rparr>"
  using dependency_gate [of
      "\<lparr>exec = (PipelineExecution_init ''e1'' ''p1'' RUNNING 0)
               \<lparr>node_executions := [(''n1'', NodeExecution_init ''n1'' ''Build'' SKIPPED),
                                     (''n2'', NodeExecution_init ''n2'' ''Test'' PENDING)]\<rparr>,
        trace = []\<rparr>"
      "(PipelineNode_init ''n2'' ''Test'' TEST [])\<lparr>dependencies := [''n1'']\<rparr>"
      "NodeExecution_init ''n2'' ''Test'' PENDING" "\<lambda>i k. Returns"]
    dependency_gate [of
      "\<lparr>exec = (PipelineExecution_init ''e1'' ''p1'' RUNNING 0)
               \<lparr>node_executions := [(''n1'', NodeExecution_init ''n1'' ''Build'' COMPLETED),
                                     (''n2'', NodeExecution_init ''n2'' ''Test'' PENDING)]\<rparr>,
        trace = []\<rparr>"
      "(PipelineNode_init ''n2'' ''Test'' TEST [])\<lparr>dependencies := [''n1'']\<rparr>"
      "NodeExecution_init ''n2'' ''Test'' PENDING" "\<lambda>i k. Returns"]
  by (simp add: PipelineNode_init_def NodeExecution_init_def PipelineExecution_init_def
        dict_set_def Let_def)

text \<open>
  C10. When the run of a node's work is cut off by the timeout, the node execution becomes
  Timeout with the message \<^verbatim>\<open>Node timed out after <timeout> seconds\<close>; the retry counter
  is unchanged and the work is not run again, whatever the node's \<^verbatim>\<open>retry_count\<close>.
\<close>

theorem timeout_no_retry:
  assumes "map_of (node_executions (exec st)) (id' node) = Some x"
    and "are_dependencies_satisfied (exec st) node"
    and "work (id' node) (runs_of (trace st) (id' node)) = TimesOut"
  shows "\<exists>st'. execute_node work node st = Inr st' \<and>
           map_of (node_executions (exec st')) (id' node) =
             Some (x\<lparr>NodeExecution.status := TIMEOUT,
                     NodeExecution.error_message :=
                       Some (''Node timed out after '' @ str_int (timeout node) @ '' seconds'')\<rparr>) \<and>
           trace st' = trace st @ [SetStatus (id' node) RUNNING,
                                   RunWork (id' node) (runs_of (trace st) (id' node)),
                                   SetStatus (id' node) TIMEOUT]"
  using execute_node_run [OF assms(1,2), of work] assms(3)
  by (simp add: Let_def node_executions_set_node_exec)

theorem timeout_no_retry_witness:
  "\<exists>st'. execute_node (\<lambda>i k. TimesOut)
            ((PipelineNode_init ''n1'' ''Build'' BUILD [])
               \<lparr>timeout := 5, PipelineNode.retry_count := 3\<rparr>)
            \<lparr>exec = (PipelineExecution_init ''e1'' ''p1'' RUNNING 0)
                      \<lparr>node_executions := [(''n1'', NodeExecution_init ''n1'' ''Build'' PENDING)]\<rparr>,
             trace = []\<rparr> = Inr st' \<and>
         map_of (node_executions (exec st')) ''n1'' =
           Some \<lparr>node_id = ''n1'', node_name = ''Build'', status = TIMEOUT,
                 error_message = Some ''Node timed out after 5 seconds'', retry_count = 0\<rparr> \<and>
         trace st' = [SetStatus ''n1'' RUNNING, RunWork ''n1'' 0, SetStatus ''n1'' TIMEOUT]"
  using timeout_no_retry [of
      "\<lparr>exec = (PipelineExecution_init ''e1'' ''p1'' RUNNING 0)
                 \<lparr>node_executions := [(''n1'', NodeExecution_init ''n1'' ''Build'' PENDING)]\<rparr>,
        trace = []\<rparr>"
      "(PipelineNode_init ''n1'' ''Build'' BUILD [])\<lparr>timeout := 5, PipelineNode.retry_count := 3\<rparr>"
      "NodeExecution_init ''n1'' ''Build'' PENDING" "\<lambda>i k. TimesOut"]
  by (simp add: PipelineNode_init_def NodeExecution_init_def PipelineExecution_init_def
        are_dependencies_satisfied_def str_int_def str_nat.simps)

subsection \<open>The decision after a stage\<close>

lemma stage_failed_iff:
  assumes "\<forall>n \<in> set ids. n \<in> fst ` set ne"
  shows "stage_failed ne ids =
         Inr (\<exists>n \<in> set ids. \<exists>x. map_of ne n = Some x \<and> NodeExecution.status x = FAILED)"
  using assms
proof (induction ids)
  case Nil
  then show ?case by simp
next
  case (Cons a ids)
  then obtain x where "map_of ne a = Some x"
    by (metis list.set_intros(1) map_of_eq_None_iff not_None_eq)
  with Cons show ?case by auto
qed

lemma continue_execution_iff:
  assumes "\<forall>n \<in> set ids. n \<in> fst ` set ne" "\<forall>n \<in> set ids. n \<in> fst ` set pn"
  shows "continue_execution pn ne ids =
         Inr (\<exists>n \<in> set ids. \<exists>x node. map_of ne n = Some x \<and> NodeExecution.status x = FAILED \<and>
                map_of pn n = Some node \<and> continue_on_error node)"
  using assms
proof (induction ids)
  case Nil
  then show ?case by simp
next
  case (Cons a ids)
  then obtain x node where "map_of ne a = Some x" "map_of pn a = Some node"
    by (metis list.set_intros(1) map_of_eq_None_iff not_None_eq)
  with Cons show ?case by auto
qed

lemma keys_foldl_dict_set:
  "fst ` set (foldl (\<lambda>d n. dict_set d (id' n) n) d0 ns) = fst ` set d0 \<union> id' ` set ns"
proof (induction ns arbitrary: d0)
  case Nil
  then show ?case by simp
next
  case (Cons n ns)
  have "fst ` set (dict_set d0 (id' n) n) = insert (id' n) (fst ` set d0)"
    by (simp add: dict_set_def dom_update [unfolded dom_map_of_conv_image_fst])
  with Cons show ?case by auto
qed

lemma create_tasks_ids:
  "create_tasks ns ids = Inr tasks \<Longrightarrow> set ids \<subseteq> id' ` set ns"
proof (induction ids arbitrary: tasks)
  case Nil
  then show ?case by simp
next
  case (Cons a ids)
  then show ?case
    using find_node_None [of ns a] by (auto split: option.splits sum.splits)
qed

text \<open>
  C1, as the code has it. After a stage in which some node execution is Failed (every node
  of the stage having a node execution, and the execution not cancelled), the loop goes on
  with the next stage if and only if at least one Failed node of the stage has
  \<^verbatim>\<open>continue_on_error = true\<close>; otherwise it stops in the state the stage left, with
  status Failed and the error message set, so that nothing of a later stage is dispatched.
\<close>

theorem stage_failure_policy:
  assumes "execute_stage work pipeline node_ids (st\<lparr>exec := (exec st)\<lparr>current_stage := i\<rparr>\<rparr>) = Inr st2"
    and "cancel i = None"
    and "PipelineExecution.status (exec st2) \<noteq> CANCELLED"
    and "\<forall>n \<in> set node_ids. n \<in> fst ` set (node_executions (exec st2))"
    and "\<exists>n \<in> set node_ids. \<exists>x. map_of (node_executions (exec st2)) n = Some x \<and>
            NodeExecution.status x = FAILED"
  shows "((\<exists>n \<in> set node_ids. \<exists>x node.
             map_of (node_executions (exec st2)) n = Some x \<and> NodeExecution.status x = FAILED \<and>
             map_of (pipeline_nodes pipeline) n = Some node \<and> continue_on_error node) \<longrightarrow>
          run_stages work cancel pipeline ((i, node_ids) # rest) st =
            run_stages work cancel pipeline rest st2) \<and>
         (\<not> (\<exists>n \<in> set node_ids. \<exists>x node.
             map_of (node_executions (exec st2)) n = Some x \<and> NodeExecution.status x = FAILED \<and>
             map_of (pipeline_nodes pipeline) n = Some node \<and> continue_on_error node) \<longrightarrow>
          run_stages work cancel pipeline ((i, node_ids) # rest) st =
            (Finished,
             st2\<lparr>exec := (exec st2)
                   \<lparr>PipelineExecution.status := FAILED,
                    PipelineExecution.error_message :=
                      Some ''Pipeline failed due to node failures''\<rparr>\<rparr>))"
proof -
  from assms(1) obtain tasks where "create_tasks (nodes pipeline) node_ids = Inr tasks"
    by (auto simp: execute_stage_def split: sum.splits)
  then have "set node_ids \<subseteq> id' ` set (nodes pipeline)"
    by (rule create_tasks_ids)
  then have pn: "\<forall>n \<in> set node_ids. n \<in> fst ` set (pipeline_nodes pipeline)"
    by (auto simp: pipeline_nodes_def keys_foldl_dict_set)
  have sf: "stage_failed (node_executions (exec st2)) node_ids = Inr True"
    using stage_failed_iff [OF assms(4)] assms(5) by simp
  note ce = continue_execution_iff [OF assms(4) pn]
  show ?thesis
    using assms(1,2,3) sf ce by (simp add: Let_def)
qed

theorem stage_failure_policy_witness:
  "run_stages always_raises never_cancelled (demo_pipeline True)
      [(0, [''a'', ''b'']), (1, [''c''])] \<lparr>exec = demo_execution RUNNING, trace = []\<rparr>
   = run_stages always_raises never_cancelled (demo_pipeline True) [(1, [''c''])]
      (projr (execute_stage always_raises (demo_pipeline True) [''a'', ''b'']
                \<lparr>exec = demo_execution RUNNING, trace = []\<rparr>))
   \<and> fst (run_stages always_raises never_cancelled (demo_pipeline False)
      [(0, [''a'', ''b'']), (1, [''c''])] \<lparr>exec = demo_execution RUNNING, trace = []\<rparr>) = Finished
   \<and> PipelineExecution.status (exec (snd (run_stages always_raises never_cancelled
      (demo_pipeline False)
      [(0, [''a'', ''b'']), (1, [''c''])] \<lparr>exec = demo_execution RUNNING, trace = []\<rparr>))) = FAILED"
proof -
  let ?st = "\<lparr>exec = demo_execution RUNNING, trace = []\<rparr>"
  let ?st1 = "?st\<lparr>exec := (exec ?st)\<lparr>current_stage := 0\<rparr>\<rparr>"
  let ?ids = "[''a'', ''b'']"
  have st1: "?st1 = ?st"
    by (simp add: demo_execution_def PipelineExecution_init_def)
  have a: "execute_stage always_raises (demo_pipeline c) ?ids ?st1 =
        Inr (projr (execute_stage always_raises (demo_pipeline c) ?ids ?st))" for c
    unfolding st1
    by (simp add: execute_stage_def demo_pipeline_def find_node_def PipelineNode_init_def)
  have b: "never_cancelled 0 = None"
    by (simp add: never_cancelled_def)
  have c: "PipelineExecution.status
             (exec (projr (execute_stage always_raises (demo_pipeline c) ?ids ?st))) \<noteq> CANCELLED" for c
    by (cases c) (simp_all, code_simp+)
  have d: "\<forall>n \<in> set ?ids. n \<in> fst ` set (node_executions
             (exec (projr (execute_stage always_raises (demo_pipeline c) ?ids ?st))))" for c
    by (cases c) (simp_all, code_simp+)
  have e0: "map_of (node_executions
             (exec (projr (execute_stage always_raises (demo_pipeline c) ?ids ?st)))) ''b'' =
           Some \<lparr>node_id = ''b'', node_name = ''Unit tests'', status = FAILED,
                 error_message = Some ''exit status 1'', retry_count = 0\<rparr>" for c
    by (cases c) (simp_all, code_simp+)
  have e1: "map_of (node_executions
             (exec (projr (execute_stage always_raises (demo_pipeline c) ?ids ?st)))) ''a'' =
           Some \<lparr>node_id = ''a'', node_name = ''Lint'', status = FAILED,
                 error_message = Some ''exit status 1'', retry_count = 0\<rparr>" for c
    by (cases c) (simp_all, code_simp+)
  have e: "\<exists>n \<in> set ?ids. \<exists>x. map_of (node_executions
             (exec (projr (execute_stage always_raises (demo_pipeline c) ?ids ?st)))) n = Some x
             \<and> NodeExecution.status x = FAILED" for c
    using e0 [of c] by simp
  have pa: "map_of (pipeline_nodes (demo_pipeline c)) ''a'' =
              Some ((PipelineNode_init ''a'' ''Lint'' TEST [])\<lparr>continue_on_error := c\<rparr>)" for c
    by (simp add: pipeline_nodes_def demo_pipeline_def dict_set_def PipelineNode_init_def)
  have pb: "map_of (pipeline_nodes (demo_pipeline c)) ''b'' =
              Some (PipelineNode_init ''b'' ''Unit tests'' TEST [])" for c
    by (simp add: pipeline_nodes_def demo_pipeline_def dict_set_def PipelineNode_init_def)
  note T = stage_failure_policy [where work = always_raises and cancel = never_cancelled
      and pipeline = "demo_pipeline True" and node_ids = ?ids and st = ?st and i = 0
      and rest = "[(1, [''c''])]", OF a b c d e]
  note F = stage_failure_policy [where work = always_raises and cancel = never_cancelled
      and pipeline = "demo_pipeline False" and node_ids = ?ids and st = ?st and i = 0
      and rest = "[(1, [''c''])]", OF a b c d e]
  have "run_stages always_raises never_cancelled (demo_pipeline True)
          [(0, ?ids), (1, [''c''])] ?st
        = run_stages always_raises never_cancelled (demo_pipeline True) [(1, [''c''])]
           (projr (execute_stage always_raises (demo_pipeline True) ?ids ?st))"
    using T e1 [of True] pa [of True] by simp
  moreover have "run_stages always_raises never_cancelled (demo_pipeline False)
          [(0, ?ids), (1, [''c''])] ?st
        = (Finished,
           (projr (execute_stage always_raises (demo_pipeline False) ?ids ?st))
             \<lparr>exec := (exec (projr (execute_stage always_raises (demo_pipeline False) ?ids ?st)))
                \<lparr>PipelineExecution.status := FAILED,
                 PipelineExecution.error_message := Some ''Pipeline failed due to node failures''\<rparr>\<rparr>)"
    using F e1 [of False] e0 [of False] pa [of False] pb [of False]
    by (simp add: PipelineNode_init_def)
  ultimately show ?thesis by simp
qed

text \<open>
  C1 as stated fails: in the example, \<open>a\<close> and \<open>b\<close> both fail in stage 0, and \<open>b\<close>
  has \<^verbatim>\<open>continue_on_error = false\<close>, yet node \<open>c\<close> of stage 1 is dispatched and the
  execution ends Completed.
\<close>

theorem stage_failure_policy_counterexample:
  "PipelineExecution.status (exec (start_execution always_raises never_cancelled
       (demo_loader True) 0 9 (demo_execution QUEUED))) = COMPLETED
   \<and> Dispatch 1 ''c'' \<in> set (trace (start_execution always_raises never_cancelled
       (demo_loader True) 0 9 (demo_execution QUEUED)))
   \<and> map_option NodeExecution.status (map_of (node_executions (exec (start_execution
       always_raises never_cancelled (demo_loader True) 0 9 (demo_execution QUEUED)))) ''b'')
       = Some FAILED
   \<and> map_option continue_on_error (find_node (nodes (demo_pipeline True)) ''b'') = Some False"
  by code_simp

subsection \<open>The monitoring loop\<close>

text \<open>
  C6. One pass of the monitoring loop over a table holding a Completed execution whose
  \<^verbatim>\<open>completed_at\<close> is 9900 seconds in the past removes nothing: the table is unchanged.
\<close>

theorem monitoring_pass_keeps_old_execution:
  "monitoring_pass 10000
     [(''e1'', (PipelineExecution_init ''e1'' ''p1'' COMPLETED 0)\<lparr>completed_at := Some 100\<rparr>)]
   = [(''e1'', (PipelineExecution_init ''e1'' ''p1'' COMPLETED 0)\<lparr>completed_at := Some 100\<rparr>)]"
  by (simp add: monitoring_pass_def PipelineExecution_is_completed_def)

subsection \<open>Validation of a Deploy node\<close>

lemma re_match_environment:
  "re_match pat_environment ''prod''" "re_match pat_environment ''production''"
  by (simp_all add: re_match_def pat_environment_def)

lemma re_match_nonempty_iff: "re_match pat_nonempty s \<longleftrightarrow> s \<noteq> [] \<and> hd s \<noteq> CHR 0x0A"
proof (cases s)
  case Nil
  then show ?thesis by (simp add: re_match_def pat_nonempty_def rx_plus_def)
next
  case (Cons c cs)
  have star: "matches_prefix False (RSeq REps (RStar RDot)) cs"
    by (cases cs) simp_all
  have void: "\<not> matches_prefix False (RSeq RVoid (RStar RDot)) cs"
  proof (induction cs)
    case Nil
    then show ?case by simp
  next
    case (Cons a cs)
    then show ?case by simp
  qed
  from Cons star void show ?thesis
    by (simp add: re_match_def pat_nonempty_def rx_plus_def)
qed

lemma unused_config_levels:
  "r \<in> set (validate_unused_config node rs) \<Longrightarrow> ValidationResult.level r = ValidationLevel.INFO"
  by (auto simp: validate_unused_config_def split: if_splits)

lemma dependencies_levels:
  assumes "min_inputs rs \<le> int (length (dependencies node))"
    and "\<forall>m. max_inputs rs = Some m \<longrightarrow> int (length (dependencies node)) \<le> m"
    and "min_outputs rs \<le> 0"
    and "r \<in> set (validate_node_dependencies node pipeline rs)"
  shows "ValidationResult.level r = ValidationLevel.INFO"
  using assms
  by (auto simp: validate_node_dependencies_def Let_def split: if_splits option.splits)

text \<open>
  C7, as the code has it. A Deploy node whose \<^verbatim>\<open>target_environment\<close> is
  \<^verbatim>\<open>production\<close> (or \<^verbatim>\<open>prod\<close>), whose \<^verbatim>\<open>deploy_command\<close> is a string matching its
  pattern, without the key \<^verbatim>\<open>health_check_url\<close>, with \<^verbatim>\<open>rollback_enabled\<close> set to
  \<^verbatim>\<open>True\<close>, whose optional fields \<^verbatim>\<open>timeout\<close> and \<^verbatim>\<open>strategy\<close> are absent or conformant,
  whose node timeout is in 1..7200, validated without a pipeline or with one or two
  dependencies: the report is valid and has exactly one warning, the one that suggests
  \<^verbatim>\<open>health_check_url\<close>.
\<close>

theorem deploy_production_warning:
  assumes ty: "type node = DEPLOY"
    and env: "map_of (config node) ''target_environment'' = Some (PStr e)"
             "e = ''production'' \<or> e = ''prod''"
    and cmd: "map_of (config node) ''deploy_command'' = Some (PStr c)" "re_match pat_nonempty c"
    and hc: "map_of (config node) ''health_check_url'' = None"
    and rb: "map_of (config node) ''rollback_enabled'' = Some (PBool True)"
    and tm: "map_of (config node) ''timeout'' = None \<or>
             (\<exists>t. map_of (config node) ''timeout'' = Some (PInt t) \<and> 30 \<le> t \<and> t \<le> 3600)"
    and sg: "map_of (config node) ''strategy'' = None \<or>
             (\<exists>s. map_of (config node) ''strategy'' = Some (PStr s) \<and> re_match pat_strategy s)"
    and nt: "0 < timeout node" "timeout node \<le> 7200"
    and cx: "ctx = None \<or>
             (1 \<le> length (dependencies node) \<and> length (dependencies node) \<le> 2)"
  shows "\<exists>report. validate_node py node ctx = Inr report \<and>
           NodeValidationReport.is_valid report \<and>
           warnings report =
             [\<lparr>ValidationResult.level = ValidationLevel.WARNING,
               message = ''Production deployment should include health checks'',
               field = None,
               suggestion = Some ''Add health_check_url configuration''\<rparr>]"
proof -
  let ?cfg = "config node"
  let ?rs = "validation_rules DEPLOY"
  let ?w = "\<lparr>ValidationResult.level = ValidationLevel.WARNING,
             message = ''Production deployment should include health checks'',
             field = None, suggestion = Some ''Add health_check_url configuration''\<rparr>"
  have c_ne: "c \<noteq> []"
    using cmd(2) by (simp add: re_match_nonempty_iff)
  have e_ne: "e \<noteq> []" and e_m: "re_match pat_environment e"
    using env(2) re_match_environment by auto
  have r1: "validate_required_fields ?cfg (required_fields ?rs) = []"
    using env(1) cmd(1) c_ne e_ne by simp
  have r2: "validate_field_types ?cfg (field_types ?rs) = []"
    using env(1) cmd(1) hc rb tm sg by auto
  have r3: "validate_field_patterns (render py) ?cfg (field_patterns ?rs) = []"
    using env(1) cmd hc sg e_m by auto
  have r4: "validate_field_ranges (parse_float py) ?cfg (field_ranges ?rs) = Inr []"
  proof -
    have big: "(3600::int) < 2 ^ 1024 - 2 ^ 970"
      by simp
    show ?thesis
      using tm big by (auto simp: abs_if)
  qed
  have r5: "\<And>p r. ctx = Some p \<Longrightarrow> r \<in> set (validate_node_dependencies node p ?rs) \<Longrightarrow>
              ValidationResult.level r = ValidationLevel.INFO"
    using cx by (intro dependencies_levels [where rs = ?rs and node = node]) auto
  have r6: "validate_node_specific (other_validators py) node = Inr [?w]"
    using ty env hc rb by (auto simp: validate_node_specific_def validate_deploy_node_def)
  have r7: "validate_timeout_settings node = []"
    using nt by (simp add: validate_timeout_settings_def)
  let ?r5 = "case ctx of None \<Rightarrow> [] | Some p \<Rightarrow> validate_node_dependencies node p ?rs"
  let ?rsl = "?r5 @ [?w] @ validate_unused_config node ?rs"
  have r5': "\<forall>r \<in> set ?r5. ValidationResult.level r = ValidationLevel.INFO"
    using r5 by (cases ctx) auto
  have val: "validate_node py node ctx =
        Inr \<lparr>NodeValidationReport.node_id = id' node, node_name = name node,
             is_valid = \<not> (\<exists>r \<in> set ?rsl. ValidationResult.level r = ValidationLevel.ERROR), results = ?rsl\<rparr>"
    unfolding validate_node_def Let_def ty r1 r2 r3 r4 r6 r7 by simp
  have ne: "\<not> (\<exists>r \<in> set ?rsl. ValidationResult.level r = ValidationLevel.ERROR)"
    using r5' unused_config_levels [of _ node ?rs] by auto
  have f5: "filter (\<lambda>r. ValidationResult.level r = ValidationLevel.WARNING) ?r5 = []"
    using r5' by (auto simp: filter_empty_conv)
  have f8: "filter (\<lambda>r. ValidationResult.level r = ValidationLevel.WARNING) (validate_unused_config node ?rs) = []"
    using unused_config_levels [of _ node ?rs] by (auto simp: filter_empty_conv)
  have "warnings \<lparr>NodeValidationReport.node_id = id' node, node_name = name node,
             is_valid = True, results = ?rsl\<rparr> = [?w]"
    using f5 f8 by (simp add: warnings_def)
  with val ne show ?thesis by simp
qed

theorem deploy_production_warning_witness:
  "re_match pat_nonempty ''kubectl apply -f app.yaml'' \<and>
   (\<exists>report.
      validate_node demo_builtins (demo_deploy_node [(''rollback_enabled'', PBool True)]) None
        = Inr report \<and>
      NodeValidationReport.is_valid report \<and>
      warnings report =
        [\<lparr>ValidationResult.level = ValidationLevel.WARNING,
          message = ''Production deployment should include health checks'',
          field = None,
          suggestion = Some ''Add health_check_url configuration''\<rparr>])"
proof -
  have m: "re_match pat_nonempty ''kubectl apply -f app.yaml''"
    by (simp add: re_match_nonempty_iff)
  show ?thesis
    using deploy_production_warning
      [of "demo_deploy_node [(''rollback_enabled'', PBool True)]" "''production''"
          "''kubectl apply -f app.yaml''" None demo_builtins] m
    by (simp add: demo_deploy_node_def PipelineNode_init_def)
qed

text \<open>
  C7 as stated fails: production, both required fields conformant, no
  \<^verbatim>\<open>health_check_url\<close>, and the report has two warnings, the second one for the missing
  \<^verbatim>\<open>rollback_enabled\<close>.
\<close>

theorem deploy_production_warning_counterexample:
  "validate_node demo_builtins (demo_deploy_node []) None =
     Inr \<lparr>NodeValidationReport.node_id = ''d1'', node_name = ''Deploy'', is_valid = True,
          results = [\<lparr>ValidationResult.level = ValidationLevel.WARNING,
                      message = ''Production deployment should include health checks'',
                      field = None,
                      suggestion = Some ''Add health_check_url configuration''\<rparr>,
                     \<lparr>ValidationResult.level = ValidationLevel.WARNING,
                      message = ''Production deployment should enable rollback'',
                      field = None,
                      suggestion = Some ''Set rollback_enabled to true''\<rparr>]\<rparr>"
  by code_simp

subsection \<open>The stage computation\<close>




















lemma staged_before:
  assumes lev: "\<forall>i<length stages. \<forall>v\<in>set (stages ! i). \<forall>u. (u, v) \<in> set E \<longrightarrow>
                  (\<exists>j<i. u \<in> set (stages ! j))"
    and p: "(u, v) \<in> (set E)\<^sup>+"
  shows "\<forall>i<length stages. v \<in> set (stages ! i) \<longrightarrow> (\<exists>j<i. u \<in> set (stages ! j))"
  using p
proof (induction rule: trancl_induct)
  case (base y)
  with lev show ?case by blast
next
  case (step y z)
  show ?case
  proof (intro allI impI)
    fix i assume i: "i < length stages" "z \<in> set (stages ! i)"
    with lev step.hyps(2) obtain j where j: "j < i" "y \<in> set (stages ! j)" by blast
    with i(1) step.IH obtain k where "k < j" "u \<in> set (stages ! k)"
      by (meson less_trans)
    with j(1) show "\<exists>j<i. u \<in> set (stages ! j)"
      by (meson less_trans)
  qed
qed

lemma cycle_not_staged:
  assumes lev: "\<forall>i<length stages. \<forall>v\<in>set (stages ! i). \<forall>u. (u, v) \<in> set E \<longrightarrow>
                  (\<exists>j<i. u \<in> set (stages ! j))"
    and c: "(x, x) \<in> (set E)\<^sup>+"
  shows "x \<notin> set (concat stages)"
proof -
  have *: "i < length stages \<Longrightarrow> x \<notin> set (stages ! i)" for i
  proof (induction i rule: less_induct)
    case (less i)
    show ?case
    proof
      assume "x \<in> set (stages ! i)"
      with staged_before [OF lev c] less.prems obtain j where "j < i" "x \<in> set (stages ! j)"
        by blast
      with less.IH [of j] less.prems show False by simp
    qed
  qed
  show ?thesis
  proof
    assume "x \<in> set (concat stages)"
    then obtain s where "s \<in> set stages" "x \<in> set s" by auto
    then obtain i where "i < length stages" "x \<in> set (stages ! i)"
      by (auto simp: in_set_conv_nth)
    with * show False by blast
  qed
qed



end
